theory Spec2Isabelle
  imports Complex_Main
begin

section \<open>Freelance-Finance: the dashboard's computations\<close>

text \<open>
  A shallow embedding of the client-side logic of the dashboard script: the period
  helpers, \<^verbatim>\<open>processChartData\<close>, \<^verbatim>\<open>updateGlobalSummary\<close>, \<^verbatim>\<open>updateTotalPages\<close> and
  \<^verbatim>\<open>generateAISummary\<close>.

  Conventions of the embedding.
  \<^item> A JavaScript \<^verbatim>\<open>Date\<close> is its time value: an \<open>int\<close> of milliseconds since
    1970-01-01T00:00:00Z. The methods of \<^verbatim>\<open>Date\<close> follow the abstract operations of
    ECMA-262 (\<open>Day\<close>, \<open>DayFromYear\<close>, \<open>MonthFromTime\<close>, \<open>MakeDay\<close>, \<open>MakeDate\<close>).
    The limit of \<open>\<plusminus>8.64e15\<close> ms on time values is not modelled.
  \<^item> A date string \<^verbatim>\<open>YYYY-MM-DD\<close> is represented by the number of its UTC day (days
    since 1970-01-01). \<^verbatim>\<open>toISOString().split("T")[0]\<close> is then \<open>Day\<close>, and the string
    order used by \<^verbatim>\<open>Array.prototype.sort\<close> is the order of day numbers; this is exact
    for the years 0000 to 9999, where the date part of an ISO string has a fixed width.
  \<^item> Amounts are JavaScript numbers; they are modelled as \<open>real\<close>, so the rounding of
    floating-point addition is not modelled.
  \<^item> An object used as a dictionary (\<^verbatim>\<open>groupedData\<close>, \<^verbatim>\<open>expenseBreakdown\<close>) is the
    association list of its own properties in creation order. The keys of
    \<^verbatim>\<open>groupedData\<close> are date strings, which are neither array indices nor names of
    properties of \<^verbatim>\<open>Object.prototype\<close>. The keys of \<^verbatim>\<open>expenseBreakdown\<close> are
    arbitrary category strings: there the inherited properties and the order of
    \<^verbatim>\<open>Object.keys\<close> (array indices first, in ascending order) are modelled.
  \<^item> \<^verbatim>\<open>toLocaleDateString\<close> and \<^verbatim>\<open>toLocaleString\<close> belong to the runtime's
    internationalisation library; they are parameters of the functions that call them.
\<close>

subsection \<open>Time values and calendar arithmetic (ECMA-262, Date objects)\<close>

type_synonym time = int
type_synonym dateStr = int

definition msPerDay :: int where
  "msPerDay = 1000 * 60 * 60 * 24"

definition Day :: "time \<Rightarrow> int" where
  "Day t = t div msPerDay"

definition TimeWithinDay :: "time \<Rightarrow> int" where
  "TimeWithinDay t = t mod msPerDay"

definition DaysInYear :: "int \<Rightarrow> int" where
  "DaysInYear y = (if y mod 4 \<noteq> 0 then 365 else if y mod 100 \<noteq> 0 then 366
                   else if y mod 400 \<noteq> 0 then 365 else 366)"

definition DayFromYear :: "int \<Rightarrow> int" where
  "DayFromYear y =
     365 * (y - 1970) + (y - 1969) div 4 - (y - 1901) div 100 + (y - 1601) div 400"

text \<open>
  \<open>YearFromTime\<close> is the largest year whose first day is not after the given day. It is
  computed from the estimate \<open>1970 + \<lfloor>d / 365.2425\<rfloor>\<close>, corrected by at most one year.
\<close>

definition YearFromDay :: "int \<Rightarrow> int" where
  "YearFromDay d =
     (let y = 1970 + (d * 400) div 146097 in
      if DayFromYear y > d then y - 1
      else if DayFromYear (y + 1) \<le> d then y + 1 else y)"

definition InLeapYear :: "int \<Rightarrow> bool" where
  "InLeapYear d = (DaysInYear (YearFromDay d) = 366)"

definition DayWithinYear :: "int \<Rightarrow> int" where
  "DayWithinYear d = d - DayFromYear (YearFromDay d)"

text \<open>The day within the year on which month \<open>m\<close> (0 = January) starts.\<close>

definition monthStart :: "bool \<Rightarrow> int \<Rightarrow> int" where
  "monthStart leap m =
     (if m \<le> 0 then 0 else if m = 1 then 31
      else (if m = 2 then 59 else if m = 3 then 90 else if m = 4 then 120
            else if m = 5 then 151 else if m = 6 then 181 else if m = 7 then 212
            else if m = 8 then 243 else if m = 9 then 273 else if m = 10 then 304
            else 334) + (if leap then 1 else 0))"

definition MonthFromDay :: "int \<Rightarrow> int" where
  "MonthFromDay d =
     (let w = DayWithinYear d; l = InLeapYear d in
      if w < monthStart l 1 then 0 else if w < monthStart l 2 then 1
      else if w < monthStart l 3 then 2 else if w < monthStart l 4 then 3
      else if w < monthStart l 5 then 4 else if w < monthStart l 6 then 5
      else if w < monthStart l 7 then 6 else if w < monthStart l 8 then 7
      else if w < monthStart l 9 then 8 else if w < monthStart l 10 then 9
      else if w < monthStart l 11 then 10 else 11)"

definition DateFromDay :: "int \<Rightarrow> int" where
  "DateFromDay d = DayWithinYear d - monthStart (InLeapYear d) (MonthFromDay d) + 1"

definition WeekDay :: "int \<Rightarrow> int" where
  "WeekDay d = (d + 4) mod 7"

definition MakeDay :: "int \<Rightarrow> int \<Rightarrow> int \<Rightarrow> int" where
  "MakeDay year month dt =
     (let ym = year + month div 12; mn = month mod 12
      in DayFromYear ym + monthStart (DaysInYear ym = 366) mn + dt - 1)"

definition MakeDate :: "int \<Rightarrow> int \<Rightarrow> time" where
  "MakeDate day tm = day * msPerDay + tm"

subsection \<open>The methods of Date that the script calls\<close>

definition getUTCFullYear :: "time \<Rightarrow> int" where
  "getUTCFullYear t = YearFromDay (Day t)"

definition getUTCMonth :: "time \<Rightarrow> int" where
  "getUTCMonth t = MonthFromDay (Day t)"

definition getUTCDate :: "time \<Rightarrow> int" where
  "getUTCDate t = DateFromDay (Day t)"

definition getUTCDay :: "time \<Rightarrow> int" where
  "getUTCDay t = WeekDay (Day t)"

definition setUTCDate :: "time \<Rightarrow> int \<Rightarrow> time" where
  "setUTCDate t dt = MakeDate (MakeDay (getUTCFullYear t) (getUTCMonth t) dt) (TimeWithinDay t)"

definition setUTCMonth :: "time \<Rightarrow> int \<Rightarrow> time" where
  "setUTCMonth t m = MakeDate (MakeDay (getUTCFullYear t) m (getUTCDate t)) (TimeWithinDay t)"

definition setUTCFullYear :: "time \<Rightarrow> int \<Rightarrow> time" where
  "setUTCFullYear t y = MakeDate (MakeDay y (getUTCMonth t) (getUTCDate t)) (TimeWithinDay t)"

text \<open>\<^verbatim>\<open>Date.UTC(year, month, date)\<close>; a year from 0 to 99 means 1900 + year.\<close>

definition DateUTC :: "int \<Rightarrow> int \<Rightarrow> int \<Rightarrow> time" where
  "DateUTC y m dt = MakeDate (MakeDay (if 0 \<le> y \<and> y \<le> 99 then 1900 + y else y) m dt) 0"

text \<open>\<^verbatim>\<open>d.toISOString().split("T")[0]\<close>: the date string of the UTC day of \<open>d\<close>.\<close>

definition toISODate :: "time \<Rightarrow> dateStr" where
  "toISODate t = Day t"

subsection \<open>Helper functions of the script\<close>

text \<open>\<^verbatim>\<open>new Date(dateString + "T12:00:00Z")\<close>: noon UTC of the day.\<close>

definition createTimezoneSafeDate :: "dateStr \<Rightarrow> time" where
  "createTimezoneSafeDate dateString = MakeDate dateString (12 * 60 * 60 * 1000)"

definition getStartOfWeek :: "time \<Rightarrow> time" where
  "getStartOfWeek date =
     (let d = date; day = getUTCDay d; diff = getUTCDate d - day in setUTCDate d diff)"

definition getStartOfMonth :: "time \<Rightarrow> time" where
  "getStartOfMonth date = (let d = date in DateUTC (getUTCFullYear d) (getUTCMonth d) 1)"

definition getStartOfQuarter :: "time \<Rightarrow> time" where
  "getStartOfQuarter date =
     (let d = date; quarter = getUTCMonth d div 3 in DateUTC (getUTCFullYear d) (quarter * 3) 1)"

definition getStartOfYear :: "time \<Rightarrow> time" where
  "getStartOfYear date = (let d = date in DateUTC (getUTCFullYear d) 0 1)"

subsection \<open>Data model\<close>

text \<open>
  The fields of a stored transaction that the modelled functions read. \<open>date\<close> is the
  time value of \<^verbatim>\<open>t.date.toDate()\<close>; \<open>category\<close> is the property key that
  \<^verbatim>\<open>t.category\<close> denotes when it indexes \<^verbatim>\<open>expenseBreakdown\<close>.
\<close>

record transaction =
  amount :: real
  date :: time
  ttype :: string
  category :: string

record bucket =
  income :: real
  expense :: real

datatype aggregation = Daily | Weekly | Monthly | Quarterly | Yearly

datatype jsError = TypeError

text \<open>\<^verbatim>\<open>obj[k] = v\<close> on an object kept in insertion order.\<close>

fun setProp :: "'k \<Rightarrow> 'v \<Rightarrow> ('k \<times> 'v) list \<Rightarrow> ('k \<times> 'v) list" where
  "setProp k v [] = [(k, v)]"
| "setProp k v (p # ps) = (if fst p = k then (k, v) # ps else p # setProp k v ps)"

subsection \<open>processChartData\<close>

definition dayCount :: "dateStr \<Rightarrow> dateStr \<Rightarrow> real" where
  "dayCount startDateStr endDateStr =
     (let start = createTimezoneSafeDate startDateStr;
          end' = createTimezoneSafeDate endDateStr
      in real_of_int (end' - start) / (1000 * 60 * 60 * 24) + 1)"

definition aggregationTypeOf :: "real \<Rightarrow> aggregation" where
  "aggregationTypeOf dc =
     (if dc > 365 * 2 then Yearly
      else if dc > 730 then Quarterly
      else if dc > 180 then Monthly
      else if dc > 45 then Weekly
      else Daily)"

text \<open>The two halves of the first \<^verbatim>\<open>switch\<close>: the key date of the bucket, and the step.\<close>

fun keyDateOf :: "aggregation \<Rightarrow> time \<Rightarrow> time" where
  "keyDateOf Yearly d = getStartOfYear d"
| "keyDateOf Quarterly d = getStartOfQuarter d"
| "keyDateOf Monthly d = getStartOfMonth d"
| "keyDateOf Weekly d = getStartOfWeek d"
| "keyDateOf Daily d = d"

fun stepDate :: "aggregation \<Rightarrow> time \<Rightarrow> time" where
  "stepDate Yearly currentDate = setUTCFullYear currentDate (getUTCFullYear currentDate + 1)"
| "stepDate Quarterly currentDate = setUTCMonth currentDate (getUTCMonth currentDate + 3)"
| "stepDate Monthly currentDate = setUTCMonth currentDate (getUTCMonth currentDate + 1)"
| "stepDate Weekly currentDate = setUTCDate currentDate (getUTCDate currentDate + 7)"
| "stepDate Daily currentDate = setUTCDate currentDate (getUTCDate currentDate + 1)"

text \<open>The \<^verbatim>\<open>while (currentDate <= end)\<close> loop that seeds \<^verbatim>\<open>groupedData\<close>.\<close>

function seedBuckets ::
  "aggregation \<Rightarrow> time \<Rightarrow> time \<Rightarrow> (dateStr \<times> bucket) list \<Rightarrow> (dateStr \<times> bucket) list"
where
  "seedBuckets aggregationType currentDate end' groupedData =
     (if currentDate \<le> end'
      then seedBuckets aggregationType (stepDate aggregationType currentDate) end'
             (setProp (toISODate (keyDateOf aggregationType currentDate))
                \<lparr>income = 0, expense = 0\<rparr> groupedData)
      else groupedData)"
  by pat_completeness auto

text \<open>The body of \<^verbatim>\<open>data.forEach\<close>.\<close>

definition applyTransaction ::
  "aggregation \<Rightarrow> (dateStr \<times> bucket) list \<Rightarrow> transaction \<Rightarrow> (dateStr \<times> bucket) list"
where
  "applyTransaction aggregationType groupedData t =
     (let keyString = toISODate (keyDateOf aggregationType (date t)) in
      case map_of groupedData keyString of
        None \<Rightarrow> groupedData
      | Some b \<Rightarrow>
          if ttype t = ''income''
          then setProp keyString (b\<lparr>income := income b + amount t\<rparr>) groupedData
          else setProp keyString (b\<lparr>expense := expense b + amount t\<rparr>) groupedData)"

text \<open>\<^verbatim>\<open>groupedData\<close> after the seeding loop and the pass over the transactions.\<close>

definition groupedDataOf :: "transaction list \<Rightarrow> dateStr \<Rightarrow> dateStr \<Rightarrow> (dateStr \<times> bucket) list" where
  "groupedDataOf data startDateStr endDateStr =
     (let start = createTimezoneSafeDate startDateStr;
          end' = createTimezoneSafeDate endDateStr;
          aggregationType = aggregationTypeOf (dayCount startDateStr endDateStr)
      in foldl (applyTransaction aggregationType) (seedBuckets aggregationType start end' []) data)"

text \<open>\<^verbatim>\<open>groupedData\<close> after the seeding loop, before any transaction is applied.\<close>

definition seededOf :: "dateStr \<Rightarrow> dateStr \<Rightarrow> (dateStr \<times> bucket) list" where
  "seededOf s e = seedBuckets (aggregationTypeOf (dayCount s e))
      (createTimezoneSafeDate s) (createTimezoneSafeDate e) []"

text \<open>\<^verbatim>\<open>Object.keys(groupedData).sort()\<close>.\<close>

definition sortedKeysOf :: "(dateStr \<times> bucket) list \<Rightarrow> dateStr list" where
  "sortedKeysOf groupedData = sort (map fst groupedData)"

text \<open>
  The option sets passed to \<^verbatim>\<open>toLocaleDateString("en-US", ...)\<close>: month, day and year
  as \<^verbatim>\<open>short/numeric/numeric\<close>; month and year as \<^verbatim>\<open>short/numeric\<close>; month and year
  as \<^verbatim>\<open>long/numeric\<close>; month and day as \<^verbatim>\<open>short/numeric\<close>; weekday, month and day as
  \<^verbatim>\<open>long/long/numeric\<close>.
\<close>

datatype dateFmt = ShortMonthDayYear | ShortMonthYear | LongMonthYear | ShortMonthDay | LongWeekdayMonthDay

text \<open>A chart label is a number (the year) or a string.\<close>

datatype label = NumLabel int | StrLabel string

text \<open>Template literals print an integer in decimal.\<close>

fun showNat :: "nat \<Rightarrow> string" where
  "showNat n = (if n < 10 then [char_of (48 + n)] else showNat (n div 10) @ [char_of (48 + n mod 10)])"

declare showNat.simps [simp del]

definition showInt :: "int \<Rightarrow> string" where
  "showInt i = (if i < 0 then CHR ''-'' # showNat (nat (- i)) else showNat (nat i))"

text \<open>The second \<^verbatim>\<open>switch\<close>, inside \<^verbatim>\<open>sortedKeys.forEach\<close>: the label pushed for a key.\<close>

fun labelOf :: "(dateFmt \<Rightarrow> time \<Rightarrow> string) \<Rightarrow> aggregation \<Rightarrow> dateStr \<Rightarrow> label" where
  "labelOf toLocaleDateString Yearly key =
     (let date = createTimezoneSafeDate key in NumLabel (getUTCFullYear date))"
| "labelOf toLocaleDateString Quarterly key =
     (let date = createTimezoneSafeDate key; quarter = getUTCMonth date div 3 + 1
      in StrLabel (''Q'' @ showInt quarter @ '' '' @ showInt (getUTCFullYear date)))"
| "labelOf toLocaleDateString Monthly key =
     (let date = createTimezoneSafeDate key in StrLabel (toLocaleDateString ShortMonthYear date))"
| "labelOf toLocaleDateString Weekly key =
     (let date = createTimezoneSafeDate key
      in StrLabel (''Wk of '' @ toLocaleDateString ShortMonthDay date))"
| "labelOf toLocaleDateString Daily key =
     (let date = createTimezoneSafeDate key in StrLabel (toLocaleDateString ShortMonthDay date))"

text \<open>The tooltip title pushed for a key.\<close>

fun tooltipOf :: "(dateFmt \<Rightarrow> time \<Rightarrow> string) \<Rightarrow> aggregation \<Rightarrow> dateStr \<Rightarrow> string" where
  "tooltipOf toLocaleDateString Yearly key =
     (let date = createTimezoneSafeDate key;
          yearEnd = date;
          yearEnd = setUTCFullYear yearEnd (getUTCFullYear yearEnd + 1);
          yearEnd = setUTCDate yearEnd 0
      in toLocaleDateString ShortMonthDayYear date @ '' - ''
           @ toLocaleDateString ShortMonthDayYear yearEnd)"
| "tooltipOf toLocaleDateString Quarterly key =
     (let date = createTimezoneSafeDate key;
          quarterEnd = date;
          quarterEnd = setUTCMonth quarterEnd (getUTCMonth quarterEnd + 3);
          quarterEnd = setUTCDate quarterEnd 0
      in toLocaleDateString ShortMonthDayYear date @ '' - ''
           @ toLocaleDateString ShortMonthDayYear quarterEnd)"
| "tooltipOf toLocaleDateString Monthly key =
     (let date = createTimezoneSafeDate key in toLocaleDateString LongMonthYear date)"
| "tooltipOf toLocaleDateString Weekly key =
     (let date = createTimezoneSafeDate key;
          weekEnd = date;
          weekEnd = setUTCDate weekEnd (getUTCDate date + 6)
      in toLocaleDateString ShortMonthDay date @ '' - ''
           @ toLocaleDateString ShortMonthDay weekEnd)"
| "tooltipOf toLocaleDateString Daily key =
     (let date = createTimezoneSafeDate key in toLocaleDateString LongWeekdayMonthDay date)"

text \<open>
  \<^verbatim>\<open>sortedKeys.map((key) => groupedData[key].income)\<close>: reading a field of
  \<^verbatim>\<open>undefined\<close> throws a \<^verbatim>\<open>TypeError\<close>.
\<close>

fun seriesOf :: "(bucket \<Rightarrow> real) \<Rightarrow> (dateStr \<times> bucket) list \<Rightarrow> dateStr list \<Rightarrow> jsError + real list" where
  "seriesOf field groupedData [] = Inr []"
| "seriesOf field groupedData (key # keys) =
     (case map_of groupedData key of
        None \<Rightarrow> Inl TypeError
      | Some b \<Rightarrow>
          (case seriesOf field groupedData keys of
             Inl e \<Rightarrow> Inl e
           | Inr vs \<Rightarrow> Inr (field b # vs)))"

record chartData =
  labels :: "label list"
  tooltipTitles :: "string list"
  incomeData :: "real list"
  expenseData :: "real list"

definition processChartData ::
  "(dateFmt \<Rightarrow> time \<Rightarrow> string) \<Rightarrow> transaction list \<Rightarrow> dateStr \<Rightarrow> dateStr \<Rightarrow> jsError + chartData"
where
  "processChartData toLocaleDateString data startDateStr endDateStr =
     (let aggregationType = aggregationTypeOf (dayCount startDateStr endDateStr);
          groupedData = groupedDataOf data startDateStr endDateStr;
          sortedKeys = sortedKeysOf groupedData;
          ls = map (labelOf toLocaleDateString aggregationType) sortedKeys;
          ts = map (tooltipOf toLocaleDateString aggregationType) sortedKeys
      in case seriesOf income groupedData sortedKeys of
           Inl e \<Rightarrow> Inl e
         | Inr is \<Rightarrow>
             (case seriesOf expense groupedData sortedKeys of
                Inl e \<Rightarrow> Inl e
              | Inr es \<Rightarrow>
                  Inr \<lparr>labels = ls, tooltipTitles = ts, incomeData = is, expenseData = es\<rparr>))"

subsection \<open>Constants and state of the script\<close>

definition TAX_RATE :: real where
  "TAX_RATE = 0.25"

definition SAVINGS_RATE :: real where
  "SAVINGS_RATE = 0.2"

definition TRANSACTIONS_PER_PAGE :: nat where
  "TRANSACTIONS_PER_PAGE = 10"

text \<open>\<^verbatim>\<open>x || 0\<close> on a number: the falsy number 0 is replaced by 0.\<close>

definition orZero :: "real \<Rightarrow> real" where
  "orZero x = (if x = 0 then 0 else x)"

subsection \<open>updateGlobalSummary\<close>

datatype colorClass = IncomeColor | ExpenseColor | PrimaryColor

datatype progressBar = ProfitProgressBar | LossProgressBar

text \<open>
  The summary elements of the page. Each numeric field is the number whose formatting
  (\<^verbatim>\<open>formatCurrency\<close>, \<^verbatim>\<open>toFixed(0)\<close>, a percentage) is the element's text or width.
\<close>

record summaryView =
  totalIncomeEl :: real
  totalExpensesEl :: real
  netProfitEl :: real
  taxSavedAmountEl :: real
  savingsRecommendedAmountEl :: real
  availableBalanceEl :: real
  availableBalanceClass :: colorClass
  profitMarginText :: real
  profitMarginClass :: colorClass
  displayedBar :: progressBar
  barWidth :: real

text \<open>
  The argument is the outcome of the two aggregate queries: \<open>None\<close> when one of them
  rejects (the \<^verbatim>\<open>catch\<close> branch only logs), otherwise the two reported sums.
\<close>

definition updateGlobalSummary :: "(real \<times> real) option \<Rightarrow> summaryView \<Rightarrow> summaryView" where
  "updateGlobalSummary snapshots view =
     (case snapshots of
        None \<Rightarrow> view
      | Some (incomeSum, expenseSum) \<Rightarrow>
          (let totalIncome = orZero incomeSum;
               totalExpenses = orZero expenseSum;
               netProfit = totalIncome - totalExpenses;
               taxToSave = totalIncome * TAX_RATE;
               recommendedSavings = max 0 (netProfit * SAVINGS_RATE);
               availableBalance = netProfit - taxToSave - recommendedSavings;
               profitMargin =
                 (if totalIncome > 0 then (netProfit / totalIncome) * 100
                  else if netProfit < 0 then - 100 else 0)
           in \<lparr>totalIncomeEl = totalIncome,
               totalExpensesEl = totalExpenses,
               netProfitEl = netProfit,
               taxSavedAmountEl = taxToSave,
               savingsRecommendedAmountEl = recommendedSavings,
               availableBalanceEl = availableBalance,
               availableBalanceClass =
                 (if availableBalance > 0 then IncomeColor
                  else if availableBalance < 0 then ExpenseColor else PrimaryColor),
               profitMarginText = profitMargin,
               profitMarginClass = (if profitMargin \<ge> 0 then IncomeColor else ExpenseColor),
               displayedBar = (if profitMargin \<ge> 0 then ProfitProgressBar else LossProgressBar),
               barWidth =
                 (if profitMargin \<ge> 0 then min 100 profitMargin
                  else min 100 \<bar>profitMargin\<bar>)\<rparr>))"

subsection \<open>updateTotalPages\<close>

record pagination =
  currentPage :: int
  totalPages :: int
  isFetching :: bool

text \<open>
  The argument is the outcome of the count query: \<open>None\<close> when it rejects, otherwise the
  count. \<^verbatim>\<open>Math.ceil(count / TRANSACTIONS_PER_PAGE) || 1\<close> replaces a result of 0 by 1.
\<close>

definition updateTotalPages :: "nat option \<Rightarrow> pagination \<Rightarrow> pagination" where
  "updateTotalPages snapshot st =
     (case snapshot of
        None \<Rightarrow> st
      | Some count \<Rightarrow>
          (let pages = \<lceil>real count / real TRANSACTIONS_PER_PAGE\<rceil>
           in st\<lparr>totalPages := (if pages = 0 then 1 else pages)\<rparr>))"

subsection \<open>generateAISummary\<close>

text \<open>\<^verbatim>\<open>formatCurrency\<close> on a number: \<^verbatim>\<open>toLocaleString\<close> with two fraction digits.\<close>

definition formatCurrency :: "(real \<Rightarrow> string) \<Rightarrow> real \<Rightarrow> string" where
  "formatCurrency toLocaleString number = toLocaleString number"

text \<open>
  \<^verbatim>\<open>expenseBreakdown\<close> is a plain object: a property that it does not own is looked
  up in \<^verbatim>\<open>Object.prototype\<close>, whose properties are the functions named below and the
  accessor \<^verbatim>\<open>__proto__\<close>.
\<close>

definition objectPrototypeFunctions :: "string list" where
  "objectPrototypeFunctions =
     [''constructor'', ''__defineGetter__'', ''__defineSetter__'', ''hasOwnProperty'',
      ''__lookupGetter__'', ''__lookupSetter__'', ''isPrototypeOf'', ''propertyIsEnumerable'',
      ''toString'', ''valueOf'', ''toLocaleString'']"

text \<open>
  What the runtime decides where a non-numeric value is involved: how \<^verbatim>\<open>+\<close> prints a
  number that it appends to a string, the source text that a built-in function of
  \<^verbatim>\<open>Object.prototype\<close> converts to, the number that a string converts to (\<open>None\<close> for
  \<^verbatim>\<open>NaN\<close>), and the order of strings by code units.
\<close>

record jsRuntime =
  numberToString :: "real \<Rightarrow> string"
  functionText :: "string \<Rightarrow> string"
  stringToNumber :: "string \<Rightarrow> real option"
  stringLess :: "string \<Rightarrow> string \<Rightarrow> bool"

text \<open>The values that \<^verbatim>\<open>expenseBreakdown\<close> can hold: numbers and strings.\<close>

datatype jsValue = Num real | Str string

text \<open>
  The result of reading \<^verbatim>\<open>expenseBreakdown[k]\<close>: \<^verbatim>\<open>undefined\<close>, the value of an own
  property, or an object inherited from \<^verbatim>\<open>Object.prototype\<close>, given by the string it
  converts to. The getter of \<^verbatim>\<open>__proto__\<close> returns \<^verbatim>\<open>Object.prototype\<close> itself.
\<close>

datatype jsRead = Undefined | Own jsValue | Inherited string

definition getProperty :: "jsRuntime \<Rightarrow> (string \<times> jsValue) list \<Rightarrow> string \<Rightarrow> jsRead" where
  "getProperty rt obj k =
     (case map_of obj k of
        Some v \<Rightarrow> Own v
      | None \<Rightarrow>
          if k = ''__proto__'' then Inherited ''[object Object]''
          else if k \<in> set objectPrototypeFunctions then Inherited (functionText rt k)
          else Undefined)"

text \<open>
  \<^verbatim>\<open>(expenseBreakdown[k] || 0) + t.amount\<close>: \<^verbatim>\<open>undefined\<close>, 0 and the empty string are
  falsy; an object is truthy, and \<^verbatim>\<open>+\<close> with an object or a string concatenates.
\<close>

fun addAmount :: "jsRuntime \<Rightarrow> jsRead \<Rightarrow> real \<Rightarrow> jsValue" where
  "addAmount rt Undefined a = Num (0 + a)"
| "addAmount rt (Own (Num v)) a = Num (orZero v + a)"
| "addAmount rt (Own (Str s)) a = (if s = [] then Num (0 + a) else Str (s @ numberToString rt a))"
| "addAmount rt (Inherited txt) a = Str (txt @ numberToString rt a)"

text \<open>
  \<^verbatim>\<open>expenseBreakdown[k] = v\<close> for a number or string \<open>v\<close>: the setter of \<^verbatim>\<open>__proto__\<close>
  ignores a value that is neither an object nor \<^verbatim>\<open>null\<close>; any other key becomes or
  stays an own property.
\<close>

definition assignProperty ::
  "string \<Rightarrow> jsValue \<Rightarrow> (string \<times> jsValue) list \<Rightarrow> (string \<times> jsValue) list"
where
  "assignProperty k v obj = (if k = ''__proto__'' then obj else setProp k v obj)"

text \<open>The loop that fills \<^verbatim>\<open>expenseBreakdown\<close>.\<close>

definition expenseBreakdownOf :: "jsRuntime \<Rightarrow> transaction list \<Rightarrow> (string \<times> jsValue) list" where
  "expenseBreakdownOf rt rawData =
     foldl (\<lambda>expenseBreakdown t.
              assignProperty (category t)
                (addAmount rt (getProperty rt expenseBreakdown (category t)) (amount t))
                expenseBreakdown)
           [] (filter (\<lambda>t. ttype t = ''expense'') rawData)"

text \<open>
  \<^verbatim>\<open>Object.keys\<close>: the own keys that are array indices (canonical decimal numerals up
  to \<open>2\<^sup>3\<^sup>2 - 2\<close>) in ascending numeric order, then the other keys in creation order.
\<close>

definition isDigit :: "char \<Rightarrow> bool" where
  "isDigit c = (48 \<le> (of_char c :: nat) \<and> (of_char c :: nat) \<le> 57)"

definition decimalValue :: "string \<Rightarrow> nat" where
  "decimalValue s = foldl (\<lambda>n c. 10 * n + (of_char c - 48)) 0 s"

definition isArrayIndex :: "string \<Rightarrow> bool" where
  "isArrayIndex s =
     (s \<noteq> [] \<and> list_all isDigit s \<and> (if hd s = CHR ''0'' then s = ''0'' else True)
      \<and> decimalValue s \<le> 4294967294)"

definition objectKeys :: "(string \<times> 'v) list \<Rightarrow> string list" where
  "objectKeys obj =
     sort_key decimalValue (filter isArrayIndex (map fst obj))
     @ filter (\<lambda>k. \<not> isArrayIndex k) (map fst obj)"

text \<open>
  \<^verbatim>\<open>expenseBreakdown[a]\<close> for the accumulator of the \<^verbatim>\<open>reduce\<close>, which is \<^verbatim>\<open>null\<close>
  or an own key: the initial value \<^verbatim>\<open>null\<close> is converted to the property key
  \<^verbatim>\<open>"null"\<close>, which \<^verbatim>\<open>Object.prototype\<close> does not have.
\<close>

fun breakdownAt :: "(string \<times> jsValue) list \<Rightarrow> string option \<Rightarrow> jsValue option" where
  "breakdownAt expenseBreakdown None = map_of expenseBreakdown ''null''"
| "breakdownAt expenseBreakdown (Some k) = map_of expenseBreakdown k"

text \<open>
  \<^verbatim>\<open>x > y\<close>: two strings are compared as strings; otherwise both sides are converted to
  numbers, and the comparison is false when one of them is \<^verbatim>\<open>NaN\<close>, as \<^verbatim>\<open>undefined\<close>
  is.
\<close>

fun jsGreater :: "jsRuntime \<Rightarrow> jsValue option \<Rightarrow> jsValue option \<Rightarrow> bool" where
  "jsGreater rt (Some (Num x)) (Some (Num y)) = (x > y)"
| "jsGreater rt (Some (Str s)) (Some (Str u)) = stringLess rt u s"
| "jsGreater rt (Some (Str s)) (Some (Num y)) =
     (case stringToNumber rt s of None \<Rightarrow> False | Some x \<Rightarrow> x > y)"
| "jsGreater rt (Some (Num x)) (Some (Str u)) =
     (case stringToNumber rt u of None \<Rightarrow> False | Some y \<Rightarrow> x > y)"
| "jsGreater rt None y = False"
| "jsGreater rt x None = False"

text \<open>\<^verbatim>\<open>Object.keys(expenseBreakdown).reduce((a, b) => ..., null)\<close>.\<close>

definition largestExpenseCategoryOf :: "jsRuntime \<Rightarrow> (string \<times> jsValue) list \<Rightarrow> string option" where
  "largestExpenseCategoryOf rt expenseBreakdown =
     foldl (\<lambda>a b. if jsGreater rt (breakdownAt expenseBreakdown a) (map_of expenseBreakdown b)
                   then a else Some b)
           None (objectKeys expenseBreakdown)"

definition largestExpenseCategory :: "jsRuntime \<Rightarrow> transaction list \<Rightarrow> string option" where
  "largestExpenseCategory rt rawData = largestExpenseCategoryOf rt (expenseBreakdownOf rt rawData)"

text \<open>\<^verbatim>\<open>largestExpenseCategory || "None"\<close>: \<^verbatim>\<open>null\<close> and the empty string are falsy.\<close>

definition categoryInPrompt :: "jsRuntime \<Rightarrow> transaction list \<Rightarrow> string" where
  "categoryInPrompt rt rawData =
     (case largestExpenseCategory rt rawData of
        None \<Rightarrow> ''None''
      | Some c \<Rightarrow> if c = [] then ''None'' else c)"

definition promptOf :: "jsRuntime \<Rightarrow> (real \<Rightarrow> string) \<Rightarrow> transaction list \<Rightarrow> string" where
  "promptOf rt toLocaleString rawData =
     (let totalIncome =
            foldl (\<lambda>sum t. sum + amount t) 0 (filter (\<lambda>t. ttype t = ''income'') rawData);
          totalExpenses =
            foldl (\<lambda>sum t. sum + amount t) 0 (filter (\<lambda>t. ttype t = ''expense'') rawData);
          netProfit = totalIncome - totalExpenses
      in ''You are a helpful and encouraging financial assistant for a freelancer. ''
         @ ''Based on the following data, write a short, insightful summary (3-4 sentences max). ''
         @ ''Be positive but also point out one area for improvement if applicable. ''
         @ ''Format the response as a single paragraph. Data: Total Income: ''
         @ formatCurrency toLocaleString totalIncome
         @ '', Total Expenses: '' @ formatCurrency toLocaleString totalExpenses
         @ '', Net Profit: '' @ formatCurrency toLocaleString netProfit
         @ '', Largest Expense Category: ''
         @ categoryInPrompt rt rawData
         @ ''.'')"

text \<open>
  The POST request: its URL and the prompt carried in the JSON body
  \<^verbatim>\<open>{contents: [{parts: [{text: prompt}]}]}\<close>.
\<close>

record request =
  url :: string
  prompt :: string

text \<open>
  What \<^verbatim>\<open>fetch\<close> does with a request: the promise rejects, or it resolves to a
  response with its \<^verbatim>\<open>ok\<close> flag and, as \<open>Some\<close>, the text found at
  \<^verbatim>\<open>candidates[0].content.parts[0].text\<close> of its JSON body (\<open>None\<close> when reading the
  body or following that path throws).
\<close>

datatype fetchResult = Rejected | Response bool "string option"

record aiView =
  textContent :: string
  loading :: bool

text \<open>
  The state of \<^verbatim>\<open>aiSummaryContent\<close> when the function has finished, with the requests
  sent in order. The API key is \<open>None\<close> when the environment variable is undefined; an
  empty key is falsy too.
\<close>

definition requestOf ::
  "jsRuntime \<Rightarrow> (real \<Rightarrow> string) \<Rightarrow> string \<Rightarrow> transaction list \<Rightarrow> request"
where
  "requestOf rt toLocaleString key rawData =
     \<lparr>url = ''https://generativelanguage.googleapis.com/v1beta/models/''
             @ ''gemini-1.5-flash-latest:generateContent?key='' @ key,
      prompt = promptOf rt toLocaleString rawData\<rparr>"

definition generateAISummary ::
  "jsRuntime \<Rightarrow> (real \<Rightarrow> string) \<Rightarrow> string option \<Rightarrow> (request \<Rightarrow> fetchResult)
     \<Rightarrow> transaction list \<Rightarrow> aiView \<times> request list"
where
  "generateAISummary rt toLocaleString GEMINI_API_KEY fetch rawData =
     (case GEMINI_API_KEY of
        None \<Rightarrow>
          (\<lparr>textContent = ''AI API key is missing. Please check your .env file.'',
            loading = False\<rparr>, [])
      | Some key \<Rightarrow>
          if key = [] then
            (\<lparr>textContent = ''AI API key is missing. Please check your .env file.'',
              loading = False\<rparr>, [])
          else
            (let req = requestOf rt toLocaleString key rawData;
                 failed = \<lparr>textContent = ''Could not generate AI summary at this time.'',
                           loading = False\<rparr>
             in case fetch req of
                  Rejected \<Rightarrow> (failed, [req])
                | Response ok body \<Rightarrow>
                    if \<not> ok then (failed, [req])
                    else (case body of
                            None \<Rightarrow> (failed, [req])
                          | Some summary \<Rightarrow>
                              (\<lparr>textContent = summary, loading = False\<rparr>, [req]))))"

subsection \<open>Notions used by the properties, and example inputs\<close>

text \<open>The sum of the amounts of the transactions of one type.\<close>

definition totalOfType :: "string \<Rightarrow> transaction list \<Rightarrow> real" where
  "totalOfType ty data = sum_list (map amount (filter (\<lambda>t. ttype t = ty) data))"



text \<open>A formatter that prints nothing, for evaluating examples.\<close>

definition plainLocale :: "dateFmt \<Rightarrow> time \<Rightarrow> string" where
  "plainLocale fmt t = []"

text \<open>
  Day 19723 is 2024-01-01, a Monday. \<open>janData\<close> is one income of 100 on 2024-01-03;
  \<open>febData\<close> is one income of 100 on 2024-02-25 (day 19778), a Sunday.
\<close>

definition janData :: "transaction list" where
  "janData = [\<lparr>amount = 100, date = createTimezoneSafeDate 19725, ttype = ''income'', category = []\<rparr>]"

definition febData :: "transaction list" where
  "febData = [\<lparr>amount = 100, date = createTimezoneSafeDate 19778, ttype = ''income'', category = []\<rparr>]"

text \<open>\<open>midFebData\<close> is one income of 100 on 2024-02-10 (day 19763).\<close>

definition midFebData :: "transaction list" where
  "midFebData = [\<lparr>amount = 100, date = createTimezoneSafeDate 19763, ttype = ''income'', category = []\<rparr>]"

text \<open>
  Day -683187 is 0099-07-01 and day -682944 is 0100-03-01. \<open>centuryData\<close> is one
  income of 100 on 0100-02-10 (day -682963).
\<close>

definition centuryData :: "transaction list" where
  "centuryData = [\<lparr>amount = 100, date = createTimezoneSafeDate (- 682963), ttype = ''income'', category = []\<rparr>]"

text \<open>
  A runtime for evaluating examples: numbers print as nothing, a built-in function
  converts to the text \<open>function\<close>, no string converts to a number, and no string is
  below another.
\<close>

definition plainRuntime :: jsRuntime where
  "plainRuntime =
     \<lparr>numberToString = (\<lambda>x. []), functionText = (\<lambda>k. ''function''),
      stringToNumber = (\<lambda>s. None), stringLess = (\<lambda>s u. False)\<rparr>"

text \<open>Two expenses of 10 each, in the categories rent and food.\<close>

definition tieData :: "transaction list" where
  "tieData =
     [\<lparr>amount = 10, date = createTimezoneSafeDate 19723, ttype = ''expense'', category = ''rent''\<rparr>,
      \<lparr>amount = 10, date = createTimezoneSafeDate 19724, ttype = ''expense'', category = ''food''\<rparr>]"





text \<open>
  A number formatter that prints nothing, a network on which every request is rejected,
  and a server that answers every request with an error status.
\<close>

definition plainAmount :: "real \<Rightarrow> string" where
  "plainAmount x = []"

definition alwaysRejects :: "request \<Rightarrow> fetchResult" where
  "alwaysRejects req = Rejected"

definition serverError :: "request \<Rightarrow> fetchResult" where
  "serverError req = Response False None"

section \<open>Properties\<close>

subsection \<open>Facts about calendar arithmetic\<close>

lemma msPerDay_pos: "0 < msPerDay"
  by (simp add: msPerDay_def)

lemma MakeDate_Day: "MakeDate (Day t) (TimeWithinDay t) = t"
  by (simp add: MakeDate_def Day_def TimeWithinDay_def)

lemma div_step_dvd:
  fixes x n :: int
  assumes "0 < n" "(x + 1) mod n = 0"
  shows "(x + 1) div n = x div n + 1"
proof -
  from assms(2) obtain q where q: "x + 1 = n * q" by (auto simp: mod_eq_0_iff_dvd)
  have "x = n * (q - 1) + (n - 1)" using q by (simp add: algebra_simps)
  then have "x div n = q - 1" using assms(1) by (intro int_div_pos_eq[where r = "n - 1"]) auto
  moreover have "(x + 1) div n = q" using q assms(1) by simp
  ultimately show ?thesis by simp
qed

lemma div_step_ndvd:
  fixes x n :: int
  assumes "0 < n" "(x + 1) mod n \<noteq> 0"
  shows "(x + 1) div n = x div n"
proof -
  have r: "0 \<le> x mod n" "x mod n < n" using assms(1) by simp_all
  have "x mod n + 1 \<noteq> n"
  proof
    assume e: "x mod n + 1 = n"
    have "x + 1 = n * (x div n) + (x mod n + 1)" by simp
    also have "\<dots> = n * (x div n + 1)" using e by (simp add: algebra_simps)
    finally have "(x + 1) mod n = 0" by simp
    with assms(2) show False by simp
  qed
  with r have "x mod n + 1 < n" by simp
  moreover have "x + 1 = n * (x div n) + (x mod n + 1)" by simp
  ultimately show ?thesis using r(1) by (intro int_div_pos_eq[where r = "x mod n + 1"]) auto
qed

lemma div_lower: "c * (x div c) \<le> x" if "0 < c" for x c :: int
proof -
  have "x = c * (x div c) + x mod c" by simp
  moreover have "0 \<le> x mod c" using that by simp
  ultimately show ?thesis by linarith
qed

lemma div_upper: "x - (c - 1) \<le> c * (x div c)" if "0 < c" for x c :: int
proof -
  have "x = c * (x div c) + x mod c" by simp
  moreover have "x mod c \<le> c - 1" using that by simp
  ultimately show ?thesis by linarith
qed

lemma DayFromYear_bounds:
  "400 * DayFromYear (1970 + n) \<le> 146097 * n + 589"
  "146097 * n - 506 \<le> 400 * DayFromYear (1970 + n)"
proof -
  define A where "A = (1970 + n - 1969) div 4"
  define B where "B = (1970 + n - 1901) div 100"
  define C where "C = (1970 + n - 1601) div 400"
  have a1: "4 * A \<le> n + 1" using div_lower[of 4 "1970 + n - 1969"] by (simp add: A_def)
  have a2: "n - 2 \<le> 4 * A" using div_upper[of 4 "1970 + n - 1969"] by (simp add: A_def)
  have b1: "100 * B \<le> n + 69" using div_lower[of 100 "1970 + n - 1901"] by (simp add: B_def)
  have b2: "n - 30 \<le> 100 * B" using div_upper[of 100 "1970 + n - 1901"] by (simp add: B_def)
  have c1: "400 * C \<le> n + 369" using div_lower[of 400 "1970 + n - 1601"] by (simp add: C_def)
  have c2: "n - 30 \<le> 400 * C" using div_upper[of 400 "1970 + n - 1601"] by (simp add: C_def)
  have d: "DayFromYear (1970 + n) = 365 * n + A - B + C"
    by (simp add: DayFromYear_def A_def B_def C_def)
  have e: "400 * DayFromYear (1970 + n) = 146000 * n + 100 * (4 * A) - 4 * (100 * B) + 400 * C"
    unfolding d by (simp add: algebra_simps)
  show "400 * DayFromYear (1970 + n) \<le> 146097 * n + 589"
    unfolding e using a1 b2 c1 by arith
  show "146097 * n - 506 \<le> 400 * DayFromYear (1970 + n)"
    unfolding e using a2 b1 c2 by arith
qed

text \<open>\<open>YearFromDay\<close> is the year that contains the day.\<close>

lemma YearFromDay_correct:
  "DayFromYear (YearFromDay d) \<le> d \<and> d < DayFromYear (YearFromDay d + 1)"
proof -
  define k where "k = (d * 400) div 146097"
  have k1: "146097 * k \<le> d * 400" unfolding k_def by (rule div_lower) simp
  have k2: "d * 400 - (146097 - 1) \<le> 146097 * k" unfolding k_def by (rule div_upper) simp
  have lo: "DayFromYear (1970 + k - 1) \<le> d"
    using DayFromYear_bounds(1)[of "k - 1"] k1 by (simp add: algebra_simps)
  have hi: "d < DayFromYear (1970 + k + 2)"
    using DayFromYear_bounds(2)[of "k + 2"] k2 by (simp add: algebra_simps)
  have y: "YearFromDay d =
      (if DayFromYear (1970 + k) > d then 1970 + k - 1
       else if DayFromYear (1970 + k + 1) \<le> d then 1970 + k + 1 else 1970 + k)"
    by (simp add: YearFromDay_def k_def Let_def)
  show ?thesis
    unfolding y using lo hi by (auto simp: add.assoc)
qed

lemma DayFromYear_next: "DayFromYear (y + 1) = DayFromYear y + DaysInYear y"
proof -
  have m4: "(y - 1969 + 1) mod 4 = y mod 4"
  proof -
    have "(y - 1969 + 1) mod 4 = (y + 4 * (- 492)) mod 4" by simp
    also have "\<dots> = y mod 4" by (rule mod_mult_self2)
    finally show ?thesis .
  qed
  have m100: "(y - 1901 + 1) mod 100 = y mod 100"
  proof -
    have "(y - 1901 + 1) mod 100 = (y + 100 * (- 19)) mod 100" by simp
    also have "\<dots> = y mod 100" by (rule mod_mult_self2)
    finally show ?thesis .
  qed
  have m400: "(y - 1601 + 1) mod 400 = y mod 400"
  proof -
    have "(y - 1601 + 1) mod 400 = (y + 400 * (- 4)) mod 400" by simp
    also have "\<dots> = y mod 400" by (rule mod_mult_self2)
    finally show ?thesis .
  qed
  have a: "(y - 1969 + 1) div 4 = (y - 1969) div 4 + (if y mod 4 = 0 then 1 else 0)"
  proof (cases "y mod 4 = 0")
    case True
    then show ?thesis using div_step_dvd[of 4 "y - 1969"] m4 by simp
  next
    case False
    then show ?thesis using div_step_ndvd[of 4 "y - 1969"] m4 by simp
  qed
  have b: "(y - 1901 + 1) div 100 = (y - 1901) div 100 + (if y mod 100 = 0 then 1 else 0)"
  proof (cases "y mod 100 = 0")
    case True
    then show ?thesis using div_step_dvd[of 100 "y - 1901"] m100 by simp
  next
    case False
    then show ?thesis using div_step_ndvd[of 100 "y - 1901"] m100 by simp
  qed
  have c: "(y - 1601 + 1) div 400 = (y - 1601) div 400 + (if y mod 400 = 0 then 1 else 0)"
  proof (cases "y mod 400 = 0")
    case True
    then show ?thesis using div_step_dvd[of 400 "y - 1601"] m400 by simp
  next
    case False
    then show ?thesis using div_step_ndvd[of 400 "y - 1601"] m400 by simp
  qed
  have i1: "y mod 4 = 0" if "y mod 100 = 0"
  proof -
    from that have "100 dvd y" by (simp add: mod_eq_0_iff_dvd)
    then have "4 dvd y" by (rule dvd_trans[rotated]) simp
    then show ?thesis by (simp add: mod_eq_0_iff_dvd)
  qed
  have i2: "y mod 100 = 0" if "y mod 400 = 0"
  proof -
    from that have "400 dvd y" by (simp add: mod_eq_0_iff_dvd)
    then have "100 dvd y" by (rule dvd_trans[rotated]) simp
    then show ?thesis by (simp add: mod_eq_0_iff_dvd)
  qed
  define A where "A = (y - 1969) div 4"
  define B where "B = (y - 1901) div 100"
  define C where "C = (y - 1601) div 400"
  have "DayFromYear (y + 1) = 365 * (y + 1 - 1970) + (y - 1969 + 1) div 4
      - (y - 1901 + 1) div 100 + (y - 1601 + 1) div 400"
    by (simp add: DayFromYear_def)
  also have "\<dots> = 365 * (y - 1970) + 365
      + (A + (if y mod 4 = 0 then 1 else 0))
      - (B + (if y mod 100 = 0 then 1 else 0))
      + (C + (if y mod 400 = 0 then 1 else 0))"
    unfolding a b c A_def B_def C_def by (simp add: algebra_simps)
  also have "\<dots> = (365 * (y - 1970) + A - B + C) + DaysInYear y"
    using i1 i2 by (simp add: DaysInYear_def)
  finally show ?thesis by (simp add: DayFromYear_def A_def B_def C_def)
qed

text \<open>A year has at least 365 days.\<close>

lemma DayFromYear_step: "DayFromYear y + 365 \<le> DayFromYear (y + 1)"
  unfolding DayFromYear_next by (simp add: DaysInYear_def)

lemma monthStart_mono:
  assumes "0 \<le> m" "m < 11"
  shows "monthStart l m < monthStart l (m + 1)"
proof -
  from assms have "m = 0 \<or> m = 1 \<or> m = 2 \<or> m = 3 \<or> m = 4 \<or> m = 5 \<or> m = 6 \<or> m = 7
      \<or> m = 8 \<or> m = 9 \<or> m = 10"
    by arith
  then show ?thesis
    by (elim disjE) (simp_all add: monthStart_def)
qed

lemma monthStart_bounds: "0 \<le> monthStart l m \<and> monthStart l m \<le> 335"
  unfolding monthStart_def by simp

lemma monthStart_leap_diff: "monthStart l m \<le> monthStart l' m + 1"
  unfolding monthStart_def by simp

lemma MonthFromDay_range: "0 \<le> MonthFromDay d \<and> MonthFromDay d \<le> 11"
  unfolding MonthFromDay_def Let_def by simp

text \<open>The day within the year lies within the year; months and dates are in range.\<close>

lemma DayWithinYear_range:
  "0 \<le> DayWithinYear d \<and> DayWithinYear d < DaysInYear (YearFromDay d)"
  using YearFromDay_correct[of d] DayFromYear_next[of "YearFromDay d"]
  by (simp add: DayWithinYear_def)

lemma DateFromDay_range: "1 \<le> DateFromDay d \<and> DateFromDay d \<le> 31"
proof -
  have r: "0 \<le> DayWithinYear d" "DayWithinYear d < DaysInYear (YearFromDay d)"
    using DayWithinYear_range[of d] by simp_all
  show ?thesis
  proof (cases "InLeapYear d")
    case True
    with r show ?thesis
      unfolding DateFromDay_def MonthFromDay_def Let_def InLeapYear_def
      by (simp add: monthStart_def)
  next
    case False
    then have "DaysInYear (YearFromDay d) = 365"
      unfolding InLeapYear_def DaysInYear_def by (simp split: if_splits)
    with r False show ?thesis
      unfolding DateFromDay_def MonthFromDay_def Let_def
      by (simp add: monthStart_def)
  qed
qed

lemma MakeDay_roundtrip: "MakeDay (YearFromDay d) (MonthFromDay d) (DateFromDay d + n) = d + n"
proof -
  have "MonthFromDay d div 12 = 0" "MonthFromDay d mod 12 = MonthFromDay d"
    using MonthFromDay_range[of d] by simp_all
  then show ?thesis
    unfolding MakeDay_def Let_def DateFromDay_def DayWithinYear_def InLeapYear_def by simp
qed

lemma MakeDay_month_step: "MakeDay y m dt < MakeDay y (m + 1) dt"
proof (cases "m mod 12 = 11")
  case True
  have "(m + 1) mod 12 = (m mod 12 + 1) mod 12" by (simp add: mod_add_left_eq)
  with True have r: "(m + 1) mod 12 = 0" by simp
  then have d: "(m + 1) div 12 = m div 12 + 1" by (intro div_step_dvd) auto
  have "monthStart (DaysInYear (y + m div 12) = 366) 11 \<le> 335"
    using monthStart_bounds by blast
  moreover have "DayFromYear (y + m div 12) + 365 \<le> DayFromYear (y + m div 12 + 1)"
    by (rule DayFromYear_step)
  ultimately show ?thesis
    unfolding MakeDay_def Let_def using True d r
    by (simp add: monthStart_def add.assoc)
next
  case False
  have "0 \<le> m mod 12" "m mod 12 < 12" by simp_all
  with False have lt: "m mod 12 < 11" by linarith
  have "(m + 1) mod 12 = (m mod 12 + 1) mod 12" by (simp add: mod_add_left_eq)
  with lt have r: "(m + 1) mod 12 = m mod 12 + 1" by simp
  with lt have d: "(m + 1) div 12 = m div 12" by (intro div_step_ndvd) auto
  show ?thesis
    unfolding MakeDay_def Let_def d r
    using monthStart_mono[of "m mod 12" "DaysInYear (y + m div 12) = 366"] lt by simp
qed

lemma MakeDay_year_step: "MakeDay y m dt < MakeDay (y + 1) m dt"
proof -
  define ym where "ym = y + m div 12"
  have e: "y + 1 + m div 12 = ym + 1" by (simp add: ym_def)
  have "DayFromYear ym + 365 \<le> DayFromYear (ym + 1)"
    by (rule DayFromYear_step)
  moreover have "monthStart (DaysInYear ym = 366) (m mod 12)
      \<le> monthStart (DaysInYear (ym + 1) = 366) (m mod 12) + 1"
    by (rule monthStart_leap_diff)
  ultimately show ?thesis
    unfolding MakeDay_def Let_def e ym_def[symmetric] by linarith
qed

lemma setUTCDate_shift: "setUTCDate t (getUTCDate t + n) = t + n * msPerDay"
proof -
  have "setUTCDate t (getUTCDate t + n) = MakeDate (Day t + n) (TimeWithinDay t)"
    unfolding setUTCDate_def getUTCFullYear_def getUTCMonth_def getUTCDate_def
    by (simp only: MakeDay_roundtrip)
  also have "\<dots> = MakeDate (Day t) (TimeWithinDay t) + n * msPerDay"
    by (simp add: MakeDate_def algebra_simps)
  finally show ?thesis by (simp add: MakeDate_Day)
qed

lemma MakeDate_mono: "d < d' \<Longrightarrow> MakeDate d tm < MakeDate d' tm"
  using msPerDay_pos by (simp add: MakeDate_def)

lemma Day_as_MakeDay: "MakeDay (getUTCFullYear t) (getUTCMonth t) (getUTCDate t) = Day t"
  using MakeDay_roundtrip[of "Day t" 0]
  by (simp add: getUTCFullYear_def getUTCMonth_def getUTCDate_def)

lemma setUTCMonth_next: "t < setUTCMonth t (getUTCMonth t + 1)"
proof -
  have "Day t < MakeDay (getUTCFullYear t) (getUTCMonth t + 1) (getUTCDate t)"
    using MakeDay_month_step[of "getUTCFullYear t" "getUTCMonth t" "getUTCDate t"]
    by (simp only: Day_as_MakeDay)
  then have "MakeDate (Day t) (TimeWithinDay t) < setUTCMonth t (getUTCMonth t + 1)"
    unfolding setUTCMonth_def by (rule MakeDate_mono)
  then show ?thesis by (simp only: MakeDate_Day)
qed

lemma setUTCMonth_quarter: "t < setUTCMonth t (getUTCMonth t + 3)"
proof -
  let ?y = "getUTCFullYear t" and ?m = "getUTCMonth t" and ?d = "getUTCDate t"
  have "MakeDay ?y ?m ?d < MakeDay ?y (?m + 1) ?d" by (rule MakeDay_month_step)
  also have "\<dots> < MakeDay ?y (?m + 1 + 1) ?d" by (rule MakeDay_month_step)
  also have "\<dots> < MakeDay ?y (?m + 1 + 1 + 1) ?d" by (rule MakeDay_month_step)
  finally have "Day t < MakeDay ?y (?m + 3) ?d" by (simp add: Day_as_MakeDay add.assoc)
  then have "MakeDate (Day t) (TimeWithinDay t) < setUTCMonth t (?m + 3)"
    unfolding setUTCMonth_def by (rule MakeDate_mono)
  then show ?thesis by (simp only: MakeDate_Day)
qed

lemma setUTCFullYear_next: "t < setUTCFullYear t (getUTCFullYear t + 1)"
proof -
  have "Day t < MakeDay (getUTCFullYear t + 1) (getUTCMonth t) (getUTCDate t)"
    using MakeDay_year_step[of "getUTCFullYear t" "getUTCMonth t" "getUTCDate t"]
    by (simp only: Day_as_MakeDay)
  then have "MakeDate (Day t) (TimeWithinDay t) < setUTCFullYear t (getUTCFullYear t + 1)"
    unfolding setUTCFullYear_def by (rule MakeDate_mono)
  then show ?thesis by (simp only: MakeDate_Day)
qed

subsection \<open>Termination of the seeding loop\<close>

text \<open>Every step of the seeding loop moves the current date forward.\<close>

lemma stepDate_increases: "t < stepDate ag t"
proof (cases ag)
  case Daily
  then show ?thesis using msPerDay_pos by (simp add: setUTCDate_shift)
next
  case Weekly
  then show ?thesis using msPerDay_pos by (simp add: setUTCDate_shift)
next
  case Monthly
  then show ?thesis by (simp add: setUTCMonth_next)
next
  case Quarterly
  then show ?thesis by (simp add: setUTCMonth_quarter)
next
  case Yearly
  then show ?thesis by (simp add: setUTCFullYear_next)
qed

termination seedBuckets
proof (relation "measure (\<lambda>(ag, cur, e, g). nat (e - cur + 1))")
  show "wf (measure (\<lambda>(ag, cur, e, g). nat (e - cur + 1)))" by simp
next
  fix aggregationType :: aggregation and currentDate end' :: time
    and groupedData :: "(dateStr \<times> bucket) list"
  assume "currentDate \<le> end'"
  moreover have "currentDate < stepDate aggregationType currentDate"
    by (rule stepDate_increases)
  ultimately show "((aggregationType, stepDate aggregationType currentDate, end',
        setProp (toISODate (keyDateOf aggregationType currentDate))
          \<lparr>income = 0, expense = 0\<rparr> groupedData),
       (aggregationType, currentDate, end', groupedData))
      \<in> measure (\<lambda>(ag, cur, e, g). nat (e - cur + 1))"
    by simp
qed

declare seedBuckets.simps [simp del]

subsection \<open>Granularity selection\<close>

text \<open>Both dates are at noon UTC, so the day count is a whole number of days.\<close>

lemma dayCount_days: "dayCount s e = real_of_int (e - s + 1)"
proof -
  have "createTimezoneSafeDate e - createTimezoneSafeDate s = (e - s) * 86400000"
    by (simp add: createTimezoneSafeDate_def MakeDate_def msPerDay_def algebra_simps)
  then show ?thesis
    by (simp add: dayCount_def Let_def)
qed

text \<open>
  Claim C2. The granularity is a step function of the inclusive day count: yearly above
  730 days, monthly above 180, weekly above 45, daily otherwise. The second test of the
  chain (\<open>dayCount > 730\<close>, quarterly) repeats the first one, so no day count selects
  quarterly. A range of 60 days is weekly, of 200 days monthly, of 800 days yearly.
\<close>

theorem granularity_step_function:
  "aggregationTypeOf dc =
     (if dc > 730 then Yearly else if dc > 180 then Monthly
      else if dc > 45 then Weekly else Daily)
   \<and> aggregationTypeOf dc \<noteq> Quarterly
   \<and> aggregationTypeOf (dayCount s e) =
       (if e - s + 1 > 730 then Yearly else if e - s + 1 > 180 then Monthly
        else if e - s + 1 > 45 then Weekly else Daily)
   \<and> aggregationTypeOf (dayCount s (s + 59)) = Weekly
   \<and> aggregationTypeOf (dayCount s (s + 199)) = Monthly
   \<and> aggregationTypeOf (dayCount s (s + 799)) = Yearly"
  by (simp add: aggregationTypeOf_def dayCount_days)

subsection \<open>Summary figures\<close>

text \<open>
  Claim C5. From the reported totals, the net profit is income minus expenses, the tax
  reserve is income times 0.25, the recommended savings are net profit times 0.2 floored
  at zero, and the safe-to-spend balance is net profit minus tax reserve minus savings.
\<close>

theorem summary_derivation:
  "netProfitEl (updateGlobalSummary (Some (totalIncome, totalExpenses)) view)
     = totalIncome - totalExpenses
   \<and> taxSavedAmountEl (updateGlobalSummary (Some (totalIncome, totalExpenses)) view)
     = totalIncome * 0.25
   \<and> savingsRecommendedAmountEl (updateGlobalSummary (Some (totalIncome, totalExpenses)) view)
     = max 0 ((totalIncome - totalExpenses) * 0.2)
   \<and> availableBalanceEl (updateGlobalSummary (Some (totalIncome, totalExpenses)) view)
     = (totalIncome - totalExpenses) - totalIncome * 0.25
         - max 0 ((totalIncome - totalExpenses) * 0.2)"
  by (simp add: updateGlobalSummary_def orZero_def TAX_RATE_def SAVINGS_RATE_def Let_def)

text \<open>
  Claim C6. The profit margin is profit / income * 100 when income is positive, -100 when
  income is not positive and the profit is negative, and 0 otherwise; the width of the bar
  is the magnitude of the margin, at most 100.
\<close>

theorem profit_margin:
  "profitMarginText (updateGlobalSummary (Some (totalIncome, totalExpenses)) view) =
     (if totalIncome > 0 then ((totalIncome - totalExpenses) / totalIncome) * 100
      else if totalIncome - totalExpenses < 0 then - 100 else 0)
   \<and> barWidth (updateGlobalSummary (Some (totalIncome, totalExpenses)) view) =
       min 100 \<bar>profitMarginText (updateGlobalSummary (Some (totalIncome, totalExpenses)) view)\<bar>"
  by (simp add: updateGlobalSummary_def orZero_def Let_def)

subsection \<open>Page count\<close>

lemma ceiling_tenth: "\<lceil>real n / 10\<rceil> = int ((n + 9) div 10)"
proof -
  have "\<lceil>real n / 10\<rceil> = \<lceil>of_int (int n) / (of_int 10 :: real)\<rceil>" by simp
  also have "\<dots> = - (- int n div 10)" by (rule ceiling_divide_eq_div)
  also have "\<dots> = int ((n + 9) div 10)" by (simp add: zdiv_int)
  finally show ?thesis .
qed

text \<open>
  Claim C7. When the count query answers, the total page count is the count divided by
  the page size 10, rounded up, and at least 1; a count of 0 gives 1 page.
\<close>

theorem total_pages:
  "totalPages (updateTotalPages (Some count) st) = max 1 \<lceil>real count / 10\<rceil>
   \<and> totalPages (updateTotalPages (Some count) st) = max 1 (int ((count + 9) div 10))
   \<and> totalPages (updateTotalPages (Some 0) st) = 1"
proof -
  have "0 \<le> \<lceil>real count / 10\<rceil>" by simp
  then show ?thesis
    by (auto simp add: updateTotalPages_def TRANSACTIONS_PER_PAGE_def Let_def ceiling_tenth
        simp del: ceiling_divide_eq_div)
qed

subsection \<open>Objects as association lists\<close>


lemma keys_setProp:
  "map fst (setProp k v ps) = (if k \<in> fst ` set ps then map fst ps else map fst ps @ [k])"
  by (induction ps) auto

lemma distinct_setProp: "distinct (map fst ps) \<Longrightarrow> distinct (map fst (setProp k v ps))"
  by (simp add: keys_setProp)

lemma set_setProp: "set (setProp k v ps) \<subseteq> insert (k, v) (set ps)"
  by (induction ps) auto

lemma keyset_setProp: "fst ` set (setProp k v ps) = insert k (fst ` set ps)"
proof -
  have "set (map fst (setProp k v ps)) = insert k (set (map fst ps))"
    by (simp only: keys_setProp) auto
  then show ?thesis by simp
qed

subsection \<open>The seeding loop\<close>

lemma seedBuckets_distinct:
  "distinct (map fst g) \<Longrightarrow> distinct (map fst (seedBuckets ag cur e g))"
proof (induction ag cur e g rule: seedBuckets.induct)
  case (1 ag cur e g)
  show ?case
  proof (cases "cur \<le> e")
    case True
    with 1 show ?thesis by (subst seedBuckets.simps) (simp add: distinct_setProp)
  next
    case False
    with 1 show ?thesis by (subst seedBuckets.simps) simp
  qed
qed

lemma seedBuckets_zero:
  "\<forall>p\<in>set g. snd p = \<lparr>income = 0, expense = 0\<rparr>
   \<Longrightarrow> \<forall>p\<in>set (seedBuckets ag cur e g). snd p = \<lparr>income = 0, expense = 0\<rparr>"
proof (induction ag cur e g rule: seedBuckets.induct)
  case (1 ag cur e g)
  show ?case
  proof (cases "cur \<le> e")
    case True
    have "\<forall>p\<in>set (setProp (toISODate (keyDateOf ag cur)) \<lparr>income = 0, expense = 0\<rparr> g).
            snd p = \<lparr>income = 0, expense = 0\<rparr>"
      using "1.prems" set_setProp[of "toISODate (keyDateOf ag cur)" "\<lparr>income = 0, expense = 0\<rparr>" g]
      by auto
    with "1.IH"[OF True] True show ?thesis by (subst seedBuckets.simps) simp
  next
    case False
    with 1 show ?thesis by (subst seedBuckets.simps) simp
  qed
qed

subsection \<open>Noon dates\<close>

lemma Day_noon: "Day (createTimezoneSafeDate k) = k"
proof -
  have "(k * msPerDay + 43200000) div msPerDay = k"
    by (rule int_div_pos_eq[where r = 43200000]) (simp_all add: msPerDay_def)
  then show ?thesis by (simp add: Day_def createTimezoneSafeDate_def MakeDate_def)
qed

lemma noon_shift: "createTimezoneSafeDate k + n * msPerDay = createTimezoneSafeDate (k + n)"
  by (simp add: createTimezoneSafeDate_def MakeDate_def algebra_simps)

lemma noon_le: "createTimezoneSafeDate k \<le> createTimezoneSafeDate k' \<longleftrightarrow> k \<le> k'"
  by (simp add: createTimezoneSafeDate_def MakeDate_def msPerDay_def)

lemma seedBuckets_daily:
  "seedBuckets Daily (createTimezoneSafeDate k) (createTimezoneSafeDate e) g =
     (if k \<le> e
      then seedBuckets Daily (createTimezoneSafeDate (k + 1)) (createTimezoneSafeDate e)
             (setProp k \<lparr>income = 0, expense = 0\<rparr> g)
      else g)"
proof -
  have "stepDate Daily (createTimezoneSafeDate k) = createTimezoneSafeDate (k + 1)"
    using setUTCDate_shift[of "createTimezoneSafeDate k" 1] noon_shift[of k 1] by simp
  then show ?thesis
    by (subst seedBuckets.simps) (simp add: noon_le toISODate_def Day_noon)
qed

lemma seedBuckets_daily_keys:
  "fst ` set (seedBuckets Daily (createTimezoneSafeDate k) (createTimezoneSafeDate e) g)
     = fst ` set g \<union> {k..e}"
proof (induction "nat (e + 1 - k)" arbitrary: k g)
  case 0
  then have "\<not> k \<le> e" by simp
  then show ?case by (subst seedBuckets_daily) simp
next
  case (Suc n)
  then have le: "k \<le> e" and n: "n = nat (e + 1 - (k + 1))" by simp_all
  have "{k..e} = insert k {k + 1..e}" using le by auto
  with Suc.hyps(1)[OF n] le show ?case
    by (subst seedBuckets_daily) (simp add: keyset_setProp)
qed

lemma monthly_noon:
  "setUTCMonth (createTimezoneSafeDate k) (getUTCMonth (createTimezoneSafeDate k) + 1) =
     createTimezoneSafeDate (MakeDay (YearFromDay k) (MonthFromDay k + 1) (DateFromDay k))"
  "toISODate (getStartOfMonth (createTimezoneSafeDate k)) =
     MakeDay (if 0 \<le> YearFromDay k \<and> YearFromDay k \<le> 99 then 1900 + YearFromDay k
              else YearFromDay k) (MonthFromDay k) 1"
proof -
  have tw: "TimeWithinDay (createTimezoneSafeDate k) = 43200000"
  proof -
    have "(k * msPerDay + 43200000) mod msPerDay = 43200000"
      by (simp add: msPerDay_def)
    then show ?thesis by (simp add: TimeWithinDay_def createTimezoneSafeDate_def MakeDate_def)
  qed
  have "setUTCMonth (createTimezoneSafeDate k) (getUTCMonth (createTimezoneSafeDate k) + 1) =
     MakeDate (MakeDay (YearFromDay k) (MonthFromDay k + 1) (DateFromDay k)) 43200000"
    by (simp add: setUTCMonth_def getUTCFullYear_def getUTCMonth_def getUTCDate_def Day_noon tw)
  then show "setUTCMonth (createTimezoneSafeDate k) (getUTCMonth (createTimezoneSafeDate k) + 1) =
     createTimezoneSafeDate (MakeDay (YearFromDay k) (MonthFromDay k + 1) (DateFromDay k))"
    by (simp add: createTimezoneSafeDate_def)
  have "Day (MakeDate d 0) = d" for d
    by (simp add: Day_def MakeDate_def msPerDay_def)
  then show "toISODate (getStartOfMonth (createTimezoneSafeDate k)) =
     MakeDay (if 0 \<le> YearFromDay k \<and> YearFromDay k \<le> 99 then 1900 + YearFromDay k
              else YearFromDay k) (MonthFromDay k) 1"
    by (simp add: toISODate_def getStartOfMonth_def DateUTC_def getUTCFullYear_def
        getUTCMonth_def Day_noon Let_def)
qed

lemma seedBuckets_monthly:
  "seedBuckets Monthly (createTimezoneSafeDate k) (createTimezoneSafeDate e) g =
     (if k \<le> e
      then seedBuckets Monthly
             (createTimezoneSafeDate (MakeDay (YearFromDay k) (MonthFromDay k + 1) (DateFromDay k)))
             (createTimezoneSafeDate e)
             (setProp (MakeDay (if 0 \<le> YearFromDay k \<and> YearFromDay k \<le> 99
                                then 1900 + YearFromDay k else YearFromDay k) (MonthFromDay k) 1)
                \<lparr>income = 0, expense = 0\<rparr> g)
      else g)"
  by (subst seedBuckets.simps) (simp add: noon_le monthly_noon)

subsection \<open>The pass over the transactions\<close>

lemma applyTransaction_keys: "map fst (applyTransaction ag g t) = map fst g"
proof -
  have "map_of g k = Some b \<Longrightarrow> k \<in> fst ` set g" for k b
    by (metis map_of_SomeD fst_conv image_eqI)
  then show ?thesis
    by (auto simp: applyTransaction_def Let_def keys_setProp split: option.splits)
qed


lemma foldl_applyTransaction_keys: "map fst (foldl (applyTransaction ag) g data) = map fst g"
  by (induction data arbitrary: g) (simp_all add: applyTransaction_keys)


subsection \<open>Keys and series\<close>

lemma groupedDataOf_keys: "map fst (groupedDataOf data s e) = map fst (seededOf s e)"
  by (simp add: groupedDataOf_def seededOf_def Let_def foldl_applyTransaction_keys)

lemma groupedDataOf_distinct: "distinct (map fst (groupedDataOf data s e))"
  by (simp add: groupedDataOf_keys seededOf_def seedBuckets_distinct)

lemma sortedKeysOf_strict: "distinct (map fst g) \<Longrightarrow> sorted_wrt (<) (sortedKeysOf g)"
  by (simp add: sortedKeysOf_def strict_sorted_iff)

lemma set_sortedKeysOf: "set (sortedKeysOf g) = fst ` set g"
  by (simp add: sortedKeysOf_def)

lemma length_sortedKeysOf: "length (sortedKeysOf g) = length g"
  by (simp add: sortedKeysOf_def)

lemma seriesOf_total:
  "set ks \<subseteq> fst ` set g \<Longrightarrow> seriesOf f g ks = Inr (map (\<lambda>k. f (the (map_of g k))) ks)"
proof (induction ks)
  case Nil
  then show ?case by simp
next
  case (Cons k ks)
  then have "k \<in> fst ` set g" by simp
  then obtain b where "map_of g k = Some b"
    by (metis domD dom_map_of_conv_image_fst)
  with Cons show ?case by simp
qed

lemma processChartData_returns:
  "processChartData loc data s e =
     Inr \<lparr>labels = map (labelOf loc (aggregationTypeOf (dayCount s e)))
                     (sortedKeysOf (groupedDataOf data s e)),
          tooltipTitles = map (tooltipOf loc (aggregationTypeOf (dayCount s e)))
                     (sortedKeysOf (groupedDataOf data s e)),
          incomeData = map (\<lambda>k. income (the (map_of (groupedDataOf data s e) k)))
                     (sortedKeysOf (groupedDataOf data s e)),
          expenseData = map (\<lambda>k. expense (the (map_of (groupedDataOf data s e) k)))
                     (sortedKeysOf (groupedDataOf data s e))\<rparr>"
  by (simp add: processChartData_def Let_def seriesOf_total set_sortedKeysOf)

lemma daily_sortedKeys:
  assumes "dayCount s e \<le> 45"
  shows "sortedKeysOf (groupedDataOf data s e) = [s..e]"
proof -
  have ag: "aggregationTypeOf (dayCount s e) = Daily"
    using assms by (simp add: aggregationTypeOf_def)
  have "set (sortedKeysOf (groupedDataOf data s e)) = {s..e}"
    by (simp add: sortedKeysOf_def groupedDataOf_keys seededOf_def ag seedBuckets_daily_keys)
  moreover have "distinct (sortedKeysOf (groupedDataOf data s e))"
    by (simp add: sortedKeysOf_def groupedDataOf_distinct)
  moreover have "sorted (sortedKeysOf (groupedDataOf data s e))"
    by (simp add: sortedKeysOf_def)
  ultimately show ?thesis
    by (intro sorted_distinct_set_unique) simp_all
qed



lemma groupedDataOf_seeded:
  "groupedDataOf data s e =
     foldl (applyTransaction (aggregationTypeOf (dayCount s e))) (seededOf s e) data"
  by (simp add: groupedDataOf_def seededOf_def Let_def)


subsection \<open>The example range 2024-01-01 to 2024-01-05\<close>

lemma seededOf_jan:
  "seededOf 19723 19727 =
     [(19723, \<lparr>income = 0, expense = 0\<rparr>), (19724, \<lparr>income = 0, expense = 0\<rparr>),
      (19725, \<lparr>income = 0, expense = 0\<rparr>), (19726, \<lparr>income = 0, expense = 0\<rparr>),
      (19727, \<lparr>income = 0, expense = 0\<rparr>)]"
  by (simp add: seededOf_def dayCount_days aggregationTypeOf_def seedBuckets_daily)

lemma groupedDataOf_jan:
  "groupedDataOf janData 19723 19727 =
     [(19723, \<lparr>income = 0, expense = 0\<rparr>), (19724, \<lparr>income = 0, expense = 0\<rparr>),
      (19725, \<lparr>income = 100, expense = 0\<rparr>), (19726, \<lparr>income = 0, expense = 0\<rparr>),
      (19727, \<lparr>income = 0, expense = 0\<rparr>)]"
  by (simp add: groupedDataOf_seeded seededOf_jan janData_def applyTransaction_def
      dayCount_days aggregationTypeOf_def toISODate_def Day_noon)

subsection \<open>Pre-seeded buckets\<close>



subsection \<open>Sorted keys\<close>

text \<open>
  Claim C4. The sorted bucket keys are strictly increasing, without duplicates; for daily
  granularity they are exactly the consecutive days from the start date to the end date.
\<close>

theorem bucket_keys_sorted:
  "sorted_wrt (<) (sortedKeysOf (groupedDataOf data s e))
   \<and> distinct (sortedKeysOf (groupedDataOf data s e))
   \<and> (dayCount s e \<le> 45 \<longrightarrow> sortedKeysOf (groupedDataOf data s e) = [s..e])"
  using sortedKeysOf_strict[OF groupedDataOf_distinct[of data s e]] daily_sortedKeys[of s e data]
  by (simp add: strict_sorted_iff)

theorem bucket_keys_sorted_witness:
  "dayCount 19723 19727 \<le> 45
   \<and> sortedKeysOf (groupedDataOf janData 19723 19727) = [19723, 19724, 19725, 19726, 19727]"
proof -
  have h: "dayCount 19723 19727 \<le> 45" by (simp add: dayCount_days)
  with bucket_keys_sorted[of janData 19723 19727]
  have "sortedKeysOf (groupedDataOf janData 19723 19727) = [19723..19727]" by blast
  with h show ?thesis by (simp add: upto_rec1)
qed

subsection \<open>The example range 0099-07-01 to 0100-03-01\<close>

text \<open>
  \<^verbatim>\<open>Date.UTC\<close> reads the year 99 as 1999, so the months of the year 0099 get keys of
  1999: the keys are created in an order that is not the sorted order.
\<close>

lemma walk_0099:
  "YearFromDay (- 683187) = 99 \<and> MonthFromDay (- 683187) = 6 \<and> DateFromDay (- 683187) = 1"
  "YearFromDay (- 683156) = 99 \<and> MonthFromDay (- 683156) = 7 \<and> DateFromDay (- 683156) = 1"
  "YearFromDay (- 683125) = 99 \<and> MonthFromDay (- 683125) = 8 \<and> DateFromDay (- 683125) = 1"
  "YearFromDay (- 683095) = 99 \<and> MonthFromDay (- 683095) = 9 \<and> DateFromDay (- 683095) = 1"
  "YearFromDay (- 683064) = 99 \<and> MonthFromDay (- 683064) = 10 \<and> DateFromDay (- 683064) = 1"
  "YearFromDay (- 683034) = 99 \<and> MonthFromDay (- 683034) = 11 \<and> DateFromDay (- 683034) = 1"
  "YearFromDay (- 683003) = 100 \<and> MonthFromDay (- 683003) = 0 \<and> DateFromDay (- 683003) = 1"
  "YearFromDay (- 682972) = 100 \<and> MonthFromDay (- 682972) = 1 \<and> DateFromDay (- 682972) = 1"
  "YearFromDay (- 682944) = 100 \<and> MonthFromDay (- 682944) = 2 \<and> DateFromDay (- 682944) = 1"
  "YearFromDay (- 682963) = 100 \<and> MonthFromDay (- 682963) = 1 \<and> DateFromDay (- 682963) = 10"
  by (simp_all add: YearFromDay_def MonthFromDay_def DateFromDay_def DayWithinYear_def
      InLeapYear_def DayFromYear_def DaysInYear_def monthStart_def Let_def)

lemma months_0099:
  "MakeDay 99 7 1 = - 683156" "MakeDay 99 8 1 = - 683125" "MakeDay 99 9 1 = - 683095"
  "MakeDay 99 10 1 = - 683064" "MakeDay 99 11 1 = - 683034" "MakeDay 99 12 1 = - 683003"
  "MakeDay 100 0 1 = - 683003" "MakeDay 100 1 1 = - 682972" "MakeDay 100 2 1 = - 682944"
  "MakeDay 100 3 1 = - 682913"
  "MakeDay 1999 6 1 = 10773" "MakeDay 1999 7 1 = 10804" "MakeDay 1999 8 1 = 10835"
  "MakeDay 1999 9 1 = 10865" "MakeDay 1999 10 1 = 10896" "MakeDay 1999 11 1 = 10926"
  by (simp_all add: MakeDay_def DayFromYear_def DaysInYear_def monthStart_def)

lemma seededOf_0099:
  "seededOf (- 683187) (- 682944) =
     [(10773, \<lparr>income = 0, expense = 0\<rparr>), (10804, \<lparr>income = 0, expense = 0\<rparr>),
      (10835, \<lparr>income = 0, expense = 0\<rparr>), (10865, \<lparr>income = 0, expense = 0\<rparr>),
      (10896, \<lparr>income = 0, expense = 0\<rparr>), (10926, \<lparr>income = 0, expense = 0\<rparr>),
      (- 683003, \<lparr>income = 0, expense = 0\<rparr>), (- 682972, \<lparr>income = 0, expense = 0\<rparr>),
      (- 682944, \<lparr>income = 0, expense = 0\<rparr>)]"
  by (simp add: seededOf_def dayCount_days aggregationTypeOf_def seedBuckets_monthly
      walk_0099 months_0099)

lemma groupedDataOf_0099:
  "groupedDataOf centuryData (- 683187) (- 682944) =
     [(10773, \<lparr>income = 0, expense = 0\<rparr>), (10804, \<lparr>income = 0, expense = 0\<rparr>),
      (10835, \<lparr>income = 0, expense = 0\<rparr>), (10865, \<lparr>income = 0, expense = 0\<rparr>),
      (10896, \<lparr>income = 0, expense = 0\<rparr>), (10926, \<lparr>income = 0, expense = 0\<rparr>),
      (- 683003, \<lparr>income = 0, expense = 0\<rparr>), (- 682972, \<lparr>income = 100, expense = 0\<rparr>),
      (- 682944, \<lparr>income = 0, expense = 0\<rparr>)]"
  by (simp add: groupedDataOf_seeded seededOf_0099 centuryData_def applyTransaction_def
      dayCount_days aggregationTypeOf_def monthly_noon walk_0099 months_0099)

lemma sortedKeys_0099:
  "sortedKeysOf (groupedDataOf centuryData (- 683187) (- 682944)) =
     [- 683003, - 682972, - 682944, 10773, 10804, 10835, 10865, 10896, 10926]"
  by (simp add: groupedDataOf_0099 sortedKeysOf_def)

subsection \<open>Alignment of the four sequences\<close>

text \<open>
  Claim C10. The sorted keys are the bucket keys in strictly increasing order. The
  chart is always returned; its labels, tooltip titles, income data and expense data all
  have as many entries as there are distinct bucket keys, and the entries at position
  \<open>i\<close> are the label, the tooltip title and the two sums of the bucket of the \<open>i\<close>-th
  key in that order.
\<close>

theorem chart_sequences_aligned:
  "sorted_wrt (<) (sortedKeysOf (groupedDataOf data s e))
   \<and> set (sortedKeysOf (groupedDataOf data s e)) = fst ` set (groupedDataOf data s e)
   \<and> (\<exists>c. processChartData loc data s e = Inr c
     \<and> length (sortedKeysOf (groupedDataOf data s e)) = card (fst ` set (groupedDataOf data s e))
     \<and> length (labels c) = card (fst ` set (groupedDataOf data s e))
     \<and> length (tooltipTitles c) = card (fst ` set (groupedDataOf data s e))
     \<and> length (incomeData c) = card (fst ` set (groupedDataOf data s e))
     \<and> length (expenseData c) = card (fst ` set (groupedDataOf data s e))
     \<and> (\<forall>i<card (fst ` set (groupedDataOf data s e)).
          labels c ! i = labelOf loc (aggregationTypeOf (dayCount s e))
                           (sortedKeysOf (groupedDataOf data s e) ! i)
          \<and> tooltipTitles c ! i = tooltipOf loc (aggregationTypeOf (dayCount s e))
                           (sortedKeysOf (groupedDataOf data s e) ! i)
          \<and> map_of (groupedDataOf data s e) (sortedKeysOf (groupedDataOf data s e) ! i)
              = Some \<lparr>income = incomeData c ! i, expense = expenseData c ! i\<rparr>))"
proof -
  let ?g = "groupedDataOf data s e"
  let ?ks = "sortedKeysOf ?g"
  have "card (fst ` set ?g) = card (set (map fst ?g))" by simp
  also have "\<dots> = length (map fst ?g)"
    using groupedDataOf_distinct[of data s e] by (rule distinct_card)
  finally have n: "card (fst ` set ?g) = length ?ks" by (simp add: length_sortedKeysOf)
  have look: "map_of ?g (?ks ! i) = Some \<lparr>income = income (the (map_of ?g (?ks ! i))),
      expense = expense (the (map_of ?g (?ks ! i)))\<rparr>" if "i < length ?ks" for i
  proof -
    have "?ks ! i \<in> set ?ks" using that by simp
    then have "?ks ! i \<in> fst ` set ?g" by (simp add: set_sortedKeysOf)
    then obtain b where "map_of ?g (?ks ! i) = Some b"
      by (metis domD dom_map_of_conv_image_fst)
    then show ?thesis by simp
  qed
  have sorted: "sorted_wrt (<) ?ks"
    using groupedDataOf_distinct[of data s e] by (rule sortedKeysOf_strict)
  have keys: "set ?ks = fst ` set ?g"
    by (rule set_sortedKeysOf)
  show ?thesis
    unfolding processChartData_returns n using look sorted keys by simp
qed

theorem chart_sequences_aligned_witness:
  "2 < card (fst ` set (groupedDataOf janData 19723 19727))
   \<and> sortedKeysOf (groupedDataOf janData 19723 19727) = [19723, 19724, 19725, 19726, 19727]
   \<and> (\<exists>c. processChartData plainLocale janData 19723 19727 = Inr c
        \<and> length (labels c) = 5 \<and> length (tooltipTitles c) = 5
        \<and> length (incomeData c) = 5 \<and> length (expenseData c) = 5
        \<and> labels c ! 2 = StrLabel [] \<and> tooltipTitles c ! 2 = []
        \<and> incomeData c ! 2 = 100 \<and> expenseData c ! 2 = 0)
   \<and> map fst (groupedDataOf centuryData (- 683187) (- 682944)) =
       [10773, 10804, 10835, 10865, 10896, 10926, - 683003, - 682972, - 682944]
   \<and> sortedKeysOf (groupedDataOf centuryData (- 683187) (- 682944)) =
       [- 683003, - 682972, - 682944, 10773, 10804, 10835, 10865, 10896, 10926]
   \<and> (\<exists>c. processChartData plainLocale centuryData (- 683187) (- 682944) = Inr c
        \<and> length (incomeData c) = 9 \<and> incomeData c ! 1 = 100 \<and> incomeData c ! 7 = 0)"
proof -
  have k: "sortedKeysOf (groupedDataOf janData 19723 19727) = [19723, 19724, 19725, 19726, 19727]"
    by (simp add: groupedDataOf_jan sortedKeysOf_def)
  have n: "card (fst ` set (groupedDataOf janData 19723 19727)) = 5"
    by (simp add: groupedDataOf_jan)
  have ag: "aggregationTypeOf (dayCount 19723 19727) = Daily"
    by (simp add: dayCount_days aggregationTypeOf_def)
  from chart_sequences_aligned[where s = 19723 and e = 19727 and data = janData
      and loc = plainLocale]
  obtain c where c: "processChartData plainLocale janData 19723 19727 = Inr c"
    and len: "length (labels c) = 5" "length (tooltipTitles c) = 5"
      "length (incomeData c) = 5" "length (expenseData c) = 5"
    and al: "\<forall>i<5. labels c ! i = labelOf plainLocale Daily ([19723, 19724, 19725, 19726, 19727] ! i)
          \<and> tooltipTitles c ! i = tooltipOf plainLocale Daily ([19723, 19724, 19725, 19726, 19727] ! i)
          \<and> map_of (groupedDataOf janData 19723 19727) ([19723, 19724, 19725, 19726, 19727] ! i)
              = Some \<lparr>income = incomeData c ! i, expense = expenseData c ! i\<rparr>"
    unfolding n k ag by blast
  from al[rule_format, of 2] have "labels c ! 2 = labelOf plainLocale Daily ([19723, 19724, 19725, 19726, 19727] ! 2)
          \<and> tooltipTitles c ! 2 = tooltipOf plainLocale Daily ([19723, 19724, 19725, 19726, 19727] ! 2)
          \<and> map_of (groupedDataOf janData 19723 19727) ([19723, 19724, 19725, 19726, 19727] ! 2)
              = Some \<lparr>income = incomeData c ! 2, expense = expenseData c ! 2\<rparr>"
    by simp
  then have "labels c ! 2 = StrLabel [] \<and> tooltipTitles c ! 2 = []
      \<and> incomeData c ! 2 = 100 \<and> expenseData c ! 2 = 0"
    by (simp add: groupedDataOf_jan plainLocale_def)
  with c len n k have jan: "2 < card (fst ` set (groupedDataOf janData 19723 19727))
   \<and> sortedKeysOf (groupedDataOf janData 19723 19727) = [19723, 19724, 19725, 19726, 19727]
   \<and> (\<exists>c. processChartData plainLocale janData 19723 19727 = Inr c
        \<and> length (labels c) = 5 \<and> length (tooltipTitles c) = 5
        \<and> length (incomeData c) = 5 \<and> length (expenseData c) = 5
        \<and> labels c ! 2 = StrLabel [] \<and> tooltipTitles c ! 2 = []
        \<and> incomeData c ! 2 = 100 \<and> expenseData c ! 2 = 0)"
    by simp
  have n': "card (fst ` set (groupedDataOf centuryData (- 683187) (- 682944))) = 9"
    by (simp add: groupedDataOf_0099)
  from chart_sequences_aligned[where s = "- 683187" and e = "- 682944" and data = centuryData
      and loc = plainLocale]
  obtain c' where c': "processChartData plainLocale centuryData (- 683187) (- 682944) = Inr c'"
    and len': "length (incomeData c') = 9"
    and al': "\<forall>i<9. map_of (groupedDataOf centuryData (- 683187) (- 682944))
          ([- 683003, - 682972, - 682944, 10773, 10804, 10835, 10865, 10896, 10926] ! i)
              = Some \<lparr>income = incomeData c' ! i, expense = expenseData c' ! i\<rparr>"
    unfolding n' sortedKeys_0099 by blast
  from al'[rule_format, of 1] al'[rule_format, of 7]
  have "incomeData c' ! 1 = 100 \<and> incomeData c' ! 7 = 0"
    by (simp add: groupedDataOf_0099)
  with c' len' have "\<exists>c. processChartData plainLocale centuryData (- 683187) (- 682944) = Inr c
        \<and> length (incomeData c) = 9 \<and> incomeData c ! 1 = 100 \<and> incomeData c ! 7 = 0"
    by blast
  moreover have "map fst (groupedDataOf centuryData (- 683187) (- 682944)) =
       [10773, 10804, 10835, 10865, 10896, 10926, - 683003, - 682972, - 682944]"
    by (simp add: groupedDataOf_0099)
  ultimately show ?thesis using jan sortedKeys_0099 by blast
qed

subsection \<open>The largest expense category\<close>










text \<open>Array indices, and the order of keys, on examples.\<close>

lemma array_index_check:
  "isArrayIndex ''4294967294'' \<and> \<not> isArrayIndex ''4294967295'' \<and> \<not> isArrayIndex ''01''
   \<and> isArrayIndex ''0'' \<and> \<not> isArrayIndex [] \<and> \<not> isArrayIndex ''1a''"
  by (simp add: isArrayIndex_def isDigit_def decimalValue_def)

lemma objectKeys_check:
  "objectKeys [(''b'', 1::nat), (''10'', 2), (''9'', 3), (''a'', 4), (''01'', 5)]
     = [''9'', ''10'', ''b'', ''a'', ''01'']"
  by (simp add: objectKeys_def isArrayIndex_def isDigit_def decimalValue_def)












subsection \<open>Failures of the AI summary request\<close>

text \<open>
  Claim C9. With a missing (undefined or empty) API key the displayed text is the fixed
  missing-key message and no request is sent. With a key, when the request is rejected
  or the response is not ok, the displayed text is the fixed failure message and exactly
  one request has been sent. No call sends more than one request.
\<close>

theorem ai_summary_failures:
  "((GEMINI_API_KEY = None \<or> GEMINI_API_KEY = Some []) \<longrightarrow>
      generateAISummary rt toLocaleString GEMINI_API_KEY fetch rawData =
        (\<lparr>textContent = ''AI API key is missing. Please check your .env file.'',
          loading = False\<rparr>, []))
   \<and> ((key \<noteq> [] \<and> (fetch (requestOf rt toLocaleString key rawData) = Rejected
                    \<or> (\<exists>body. fetch (requestOf rt toLocaleString key rawData) = Response False body)))
       \<longrightarrow> generateAISummary rt toLocaleString (Some key) fetch rawData =
             (\<lparr>textContent = ''Could not generate AI summary at this time.'', loading = False\<rparr>,
              [requestOf rt toLocaleString key rawData]))
   \<and> length (snd (generateAISummary rt toLocaleString GEMINI_API_KEY fetch rawData)) \<le> 1"
  by (auto simp: generateAISummary_def Let_def split: option.splits fetchResult.splits)

theorem ai_summary_failures_witness:
  "generateAISummary plainRuntime plainAmount None alwaysRejects tieData =
     (\<lparr>textContent = ''AI API key is missing. Please check your .env file.'',
       loading = False\<rparr>, [])
   \<and> generateAISummary plainRuntime plainAmount (Some ''k'') alwaysRejects tieData =
       (\<lparr>textContent = ''Could not generate AI summary at this time.'', loading = False\<rparr>,
        [requestOf plainRuntime plainAmount ''k'' tieData])
   \<and> generateAISummary plainRuntime plainAmount (Some ''k'') serverError tieData =
       (\<lparr>textContent = ''Could not generate AI summary at this time.'', loading = False\<rparr>,
        [requestOf plainRuntime plainAmount ''k'' tieData])"
  using ai_summary_failures[of None plainRuntime plainAmount alwaysRejects tieData "''k''"]
    ai_summary_failures[of "Some ''k''" plainRuntime plainAmount alwaysRejects tieData "''k''"]
    ai_summary_failures[of "Some ''k''" plainRuntime plainAmount serverError tieData "''k''"]
  by (simp add: alwaysRejects_def serverError_def)

subsection \<open>Conservation where every transaction has a bucket\<close>

lemma setProp_sum:
  fixes f :: "bucket \<Rightarrow> real"
  assumes "distinct (map fst g)" "map_of g k = Some b"
  shows "sum_list (map (\<lambda>p. f (snd p)) (setProp k b' g))
       = sum_list (map (\<lambda>p. f (snd p)) g) - f b + f b'"
  using assms
proof (induction g)
  case Nil
  then show ?case by simp
next
  case (Cons p g)
  show ?case
  proof (cases "fst p = k")
    case True
    with Cons.prems show ?thesis by (cases p) simp
  next
    case False
    with Cons.prems have "map_of g k = Some b" by (cases p) simp
    with Cons.IH Cons.prems False show ?thesis by simp
  qed
qed

lemma applyTransaction_sums:
  assumes "distinct (map fst g)" "toISODate (keyDateOf ag (date t)) \<in> fst ` set g"
  shows "sum_list (map (\<lambda>p. income (snd p)) (applyTransaction ag g t))
           = sum_list (map (\<lambda>p. income (snd p)) g)
             + (if ttype t = ''income'' then amount t else 0)"
    and "sum_list (map (\<lambda>p. expense (snd p)) (applyTransaction ag g t))
           = sum_list (map (\<lambda>p. expense (snd p)) g)
             + (if ttype t = ''income'' then 0 else amount t)"
proof -
  from assms(2) obtain b where b: "map_of g (toISODate (keyDateOf ag (date t))) = Some b"
    by (metis domD dom_map_of_conv_image_fst)
  show "sum_list (map (\<lambda>p. income (snd p)) (applyTransaction ag g t))
           = sum_list (map (\<lambda>p. income (snd p)) g)
             + (if ttype t = ''income'' then amount t else 0)"
    using b by (simp add: applyTransaction_def Let_def setProp_sum[OF assms(1) b])
  show "sum_list (map (\<lambda>p. expense (snd p)) (applyTransaction ag g t))
           = sum_list (map (\<lambda>p. expense (snd p)) g)
             + (if ttype t = ''income'' then 0 else amount t)"
    using b by (simp add: applyTransaction_def Let_def setProp_sum[OF assms(1) b])
qed

lemma foldl_applyTransaction_sums:
  assumes "distinct (map fst g)"
    and "\<forall>t\<in>set data. toISODate (keyDateOf ag (date t)) \<in> fst ` set g"
  shows "sum_list (map (\<lambda>p. income (snd p)) (foldl (applyTransaction ag) g data))
           = sum_list (map (\<lambda>p. income (snd p)) g)
             + sum_list (map amount (filter (\<lambda>t. ttype t = ''income'') data))
       \<and> sum_list (map (\<lambda>p. expense (snd p)) (foldl (applyTransaction ag) g data))
           = sum_list (map (\<lambda>p. expense (snd p)) g)
             + sum_list (map amount (filter (\<lambda>t. ttype t \<noteq> ''income'') data))"
  using assms
proof (induction data arbitrary: g)
  case Nil
  then show ?case by simp
next
  case (Cons t data)
  have d: "distinct (map fst (applyTransaction ag g t))"
    using Cons.prems(1) by (simp add: applyTransaction_keys)
  have k: "\<forall>u\<in>set data. toISODate (keyDateOf ag (date u)) \<in> fst ` set (applyTransaction ag g t)"
  proof -
    have "fst ` set (applyTransaction ag g t) = set (map fst (applyTransaction ag g t))"
      by simp
    also have "\<dots> = fst ` set g" by (simp only: applyTransaction_keys) simp
    finally show ?thesis using Cons.prems(2) by simp
  qed
  have t: "toISODate (keyDateOf ag (date t)) \<in> fst ` set g"
    using Cons.prems(2) by simp
  show ?case
    using Cons.IH[OF d k] applyTransaction_sums[OF Cons.prems(1) t] by simp
qed

lemma series_sum:
  fixes f :: "bucket \<Rightarrow> real"
  assumes "distinct (map fst g)"
  shows "sum_list (map (\<lambda>k. f (the (map_of g k))) (sortedKeysOf g))
       = sum_list (map (\<lambda>p. f (snd p)) g)"
proof -
  let ?h = "\<lambda>k. f (the (map_of g k))"
  have "sum_list (map ?h (sortedKeysOf g)) = sum ?h (set (sortedKeysOf g))"
    using assms by (intro sum_list_distinct_conv_sum_set) (simp add: sortedKeysOf_def)
  also have "\<dots> = sum ?h (set (map fst g))" by (simp add: sortedKeysOf_def)
  also have "\<dots> = sum_list (map ?h (map fst g))"
    using assms by (rule sum_list_distinct_conv_sum_set[symmetric])
  also have "\<dots> = sum_list (map (\<lambda>p. f (snd p)) g)"
  proof -
    have "?h (fst p) = f (snd p)" if "p \<in> set g" for p
    proof -
      have "map_of g (fst p) = Some (snd p)"
        using assms that by (intro map_of_is_SomeI) simp_all
      then show ?thesis by simp
    qed
    then show ?thesis by (simp add: comp_def cong: map_cong)
  qed
  finally show ?thesis .
qed

text \<open>
  When every transaction falls in a seeded bucket, the series add up to the totals of
  the input; a transaction of any type other than income counts as an expense.
\<close>

lemma conservation_when_seeded:
  assumes "\<forall>t\<in>set data. toISODate (keyDateOf (aggregationTypeOf (dayCount s e)) (date t))
             \<in> fst ` set (seededOf s e)"
  shows "\<exists>c. processChartData loc data s e = Inr c
           \<and> sum_list (incomeData c) = totalOfType ''income'' data
           \<and> sum_list (expenseData c)
               = sum_list (map amount (filter (\<lambda>t. ttype t \<noteq> ''income'') data))"
proof -
  have d: "distinct (map fst (seededOf s e))"
    by (simp add: seededOf_def seedBuckets_distinct)
  have z: "\<forall>p\<in>set (seededOf s e). snd p = \<lparr>income = 0, expense = 0\<rparr>"
    unfolding seededOf_def by (rule seedBuckets_zero) simp
  have zi: "sum_list (map (\<lambda>p. income (snd p)) (seededOf s e)) = 0"
    using z by (simp add: sum_list_0 cong: map_cong)
  have ze: "sum_list (map (\<lambda>p. expense (snd p)) (seededOf s e)) = 0"
    using z by (simp add: sum_list_0 cong: map_cong)
  from foldl_applyTransaction_sums[OF d assms] zi ze
  have "sum_list (map (\<lambda>p. income (snd p)) (groupedDataOf data s e))
          = totalOfType ''income'' data"
    and "sum_list (map (\<lambda>p. expense (snd p)) (groupedDataOf data s e))
          = sum_list (map amount (filter (\<lambda>t. ttype t \<noteq> ''income'') data))"
    by (simp_all add: groupedDataOf_seeded totalOfType_def)
  then show ?thesis
    unfolding processChartData_returns
    by (simp add: series_sum[OF groupedDataOf_distinct])
qed

text \<open>
  Daily granularity seeds every day of the range, so there the sums are conserved for
  transactions dated within the range.
\<close>

lemma daily_conservation:
  assumes "dayCount s e \<le> 45"
    and "\<forall>t\<in>set data. s \<le> toISODate (date t) \<and> toISODate (date t) \<le> e"
  shows "\<exists>c. processChartData loc data s e = Inr c
           \<and> sum_list (incomeData c) = totalOfType ''income'' data
           \<and> sum_list (expenseData c)
               = sum_list (map amount (filter (\<lambda>t. ttype t \<noteq> ''income'') data))"
proof (rule conservation_when_seeded)
  have ag: "aggregationTypeOf (dayCount s e) = Daily"
    using assms(1) by (simp add: aggregationTypeOf_def)
  have "fst ` set (seededOf s e) = {s..e}"
    by (simp add: seededOf_def ag seedBuckets_daily_keys)
  with assms(2) ag
  show "\<forall>t\<in>set data. toISODate (keyDateOf (aggregationTypeOf (dayCount s e)) (date t))
             \<in> fst ` set (seededOf s e)"
    by simp
qed

subsection \<open>The example range 2024-01-06 to 2024-02-25\<close>

lemma getStartOfWeek_shift: "getStartOfWeek t = t - getUTCDay t * msPerDay"
  using setUTCDate_shift[of t "- getUTCDay t"] by (simp add: getStartOfWeek_def Let_def)

lemma weekly_key_noon:
  "toISODate (getStartOfWeek (createTimezoneSafeDate k)) = k - (k + 4) mod 7"
proof -
  have "getStartOfWeek (createTimezoneSafeDate k)
      = createTimezoneSafeDate k + (- WeekDay k) * msPerDay"
    by (simp add: getStartOfWeek_shift getUTCDay_def Day_noon)
  also have "\<dots> = createTimezoneSafeDate (k + (- WeekDay k))"
    by (rule noon_shift)
  finally show ?thesis
    by (simp add: toISODate_def Day_noon WeekDay_def)
qed

lemma seedBuckets_weekly:
  "seedBuckets Weekly (createTimezoneSafeDate k) (createTimezoneSafeDate e) g =
     (if k \<le> e
      then seedBuckets Weekly (createTimezoneSafeDate (k + 7)) (createTimezoneSafeDate e)
             (setProp (k - (k + 4) mod 7) \<lparr>income = 0, expense = 0\<rparr> g)
      else g)"
proof -
  have "stepDate Weekly (createTimezoneSafeDate k) = createTimezoneSafeDate (k + 7)"
    using setUTCDate_shift[of "createTimezoneSafeDate k" 7] noon_shift[of k 7] by simp
  then show ?thesis
    by (subst seedBuckets.simps) (simp add: noon_le weekly_key_noon)
qed

lemma seededOf_feb:
  "seededOf 19728 19778 =
     [(19722, \<lparr>income = 0, expense = 0\<rparr>), (19729, \<lparr>income = 0, expense = 0\<rparr>),
      (19736, \<lparr>income = 0, expense = 0\<rparr>), (19743, \<lparr>income = 0, expense = 0\<rparr>),
      (19750, \<lparr>income = 0, expense = 0\<rparr>), (19757, \<lparr>income = 0, expense = 0\<rparr>),
      (19764, \<lparr>income = 0, expense = 0\<rparr>), (19771, \<lparr>income = 0, expense = 0\<rparr>)]"
  by (simp add: seededOf_def dayCount_days aggregationTypeOf_def seedBuckets_weekly)

lemma groupedDataOf_feb: "groupedDataOf febData 19728 19778 = seededOf 19728 19778"
  by (simp add: groupedDataOf_seeded seededOf_feb febData_def applyTransaction_def
      dayCount_days aggregationTypeOf_def weekly_key_noon)

text \<open>The day numbers of the examples, checked against the calendar functions.\<close>

lemma calendar_check:
  "MakeDay 2024 0 1 = 19723 \<and> MakeDay 2024 0 6 = 19728 \<and> MakeDay 2024 1 25 = 19778
   \<and> getUTCFullYear (createTimezoneSafeDate 19778) = 2024
   \<and> getUTCMonth (createTimezoneSafeDate 19778) = 1
   \<and> getUTCDate (createTimezoneSafeDate 19778) = 25
   \<and> getUTCDay (createTimezoneSafeDate 19778) = 0
   \<and> getUTCDay (createTimezoneSafeDate 19728) = 6
   \<and> getUTCDay (createTimezoneSafeDate 19723) = 1"
  by (simp add: MakeDay_def DayFromYear_def DaysInYear_def monthStart_def
      getUTCFullYear_def getUTCMonth_def getUTCDate_def getUTCDay_def Day_noon
      YearFromDay_def MonthFromDay_def DateFromDay_def DayWithinYear_def InLeapYear_def
      WeekDay_def Let_def)

subsection \<open>The example range 2024-01-31 to 2024-08-15\<close>

lemma walk_2024:
  "YearFromDay 19753 = 2024 \<and> MonthFromDay 19753 = 0 \<and> DateFromDay 19753 = 31"
  "YearFromDay 19784 = 2024 \<and> MonthFromDay 19784 = 2 \<and> DateFromDay 19784 = 2"
  "YearFromDay 19815 = 2024 \<and> MonthFromDay 19815 = 3 \<and> DateFromDay 19815 = 2"
  "YearFromDay 19845 = 2024 \<and> MonthFromDay 19845 = 4 \<and> DateFromDay 19845 = 2"
  "YearFromDay 19876 = 2024 \<and> MonthFromDay 19876 = 5 \<and> DateFromDay 19876 = 2"
  "YearFromDay 19906 = 2024 \<and> MonthFromDay 19906 = 6 \<and> DateFromDay 19906 = 2"
  "YearFromDay 19937 = 2024 \<and> MonthFromDay 19937 = 7 \<and> DateFromDay 19937 = 2"
  "YearFromDay 19763 = 2024 \<and> MonthFromDay 19763 = 1 \<and> DateFromDay 19763 = 10"
  by (simp_all add: YearFromDay_def MonthFromDay_def DateFromDay_def DayWithinYear_def
      InLeapYear_def DayFromYear_def DaysInYear_def monthStart_def Let_def)

lemma months_2024:
  "MakeDay 2024 0 1 = 19723" "MakeDay 2024 1 1 = 19754" "MakeDay 2024 2 1 = 19783"
  "MakeDay 2024 3 1 = 19814" "MakeDay 2024 4 1 = 19844" "MakeDay 2024 5 1 = 19875"
  "MakeDay 2024 6 1 = 19905" "MakeDay 2024 7 1 = 19936"
  "MakeDay 2024 1 31 = 19784" "MakeDay 2024 3 2 = 19815" "MakeDay 2024 4 2 = 19845"
  "MakeDay 2024 5 2 = 19876" "MakeDay 2024 6 2 = 19906" "MakeDay 2024 7 2 = 19937"
  "MakeDay 2024 8 2 = 19968" "MakeDay 2024 7 15 = 19950"
  by (simp_all add: MakeDay_def DayFromYear_def DaysInYear_def monthStart_def)

lemma seededOf_monthly:
  "seededOf 19753 19950 =
     [(19723, \<lparr>income = 0, expense = 0\<rparr>), (19783, \<lparr>income = 0, expense = 0\<rparr>),
      (19814, \<lparr>income = 0, expense = 0\<rparr>), (19844, \<lparr>income = 0, expense = 0\<rparr>),
      (19875, \<lparr>income = 0, expense = 0\<rparr>), (19905, \<lparr>income = 0, expense = 0\<rparr>),
      (19936, \<lparr>income = 0, expense = 0\<rparr>)]"
  by (simp add: seededOf_def dayCount_days aggregationTypeOf_def seedBuckets_monthly
      walk_2024 months_2024)


lemma groupedDataOf_midFeb: "groupedDataOf midFebData 19753 19950 = seededOf 19753 19950"
  by (simp add: groupedDataOf_seeded seededOf_monthly midFebData_def applyTransaction_def
      dayCount_days aggregationTypeOf_def monthly_noon walk_2024 months_2024)

subsection \<open>Transactions of the range that the chart drops\<close>

text \<open>
  Claim C1 says that the income series adds up to the income of the input, and the
  expense series to its expenses, whenever the transactions are dated within the range.
  The code does not do this on two ranges.
  \<^item> From Saturday 2024-01-06 (day 19728) to Sunday 2024-02-25 (day 19778): 51 days,
    weekly. The loop steps from Saturday to Saturday and seeds the weeks that start on the
    Sundays from 2023-12-31 to 2024-02-18. The week of 2024-02-25 has no bucket, and an
    income of 100 on that day, the last of the range, is dropped: all eight buckets stay
    at 0.
  \<^item> From 2024-01-31 (day 19753) to 2024-08-15 (day 19950): 198 days, monthly. One
    month after January 31 is March 2, so the loop seeds January and then March to
    August. February has no bucket, and an income of 100 on 2024-02-10 is dropped: all
    seven buckets stay at 0.
\<close>

theorem conservation_fails_on_unseeded_buckets:
  "dayCount 19728 19778 = 51
   \<and> aggregationTypeOf (dayCount 19728 19778) = Weekly
   \<and> map date febData = [createTimezoneSafeDate 19778]
   \<and> totalOfType ''income'' febData = 100
   \<and> processChartData plainLocale febData 19728 19778 =
       Inr \<lparr>labels = replicate 8 (StrLabel ''Wk of ''),
            tooltipTitles = replicate 8 '' - '',
            incomeData = [0, 0, 0, 0, 0, 0, 0, 0],
            expenseData = [0, 0, 0, 0, 0, 0, 0, 0]\<rparr>
   \<and> sum_list [0, 0, 0, 0, 0, 0, 0, 0 :: real] \<noteq> totalOfType ''income'' febData
   \<and> dayCount 19753 19950 = 198
   \<and> aggregationTypeOf (dayCount 19753 19950) = Monthly
   \<and> map date midFebData = [createTimezoneSafeDate 19763]
   \<and> totalOfType ''income'' midFebData = 100
   \<and> processChartData plainLocale midFebData 19753 19950 =
       Inr \<lparr>labels = replicate 7 (StrLabel []),
            tooltipTitles = replicate 7 [],
            incomeData = [0, 0, 0, 0, 0, 0, 0],
            expenseData = [0, 0, 0, 0, 0, 0, 0]\<rparr>
   \<and> sum_list [0, 0, 0, 0, 0, 0, 0 :: real] \<noteq> totalOfType ''income'' midFebData"
proof -
  have "processChartData plainLocale febData 19728 19778 =
       Inr \<lparr>labels = replicate 8 (StrLabel ''Wk of ''),
            tooltipTitles = replicate 8 '' - '',
            incomeData = [0, 0, 0, 0, 0, 0, 0, 0],
            expenseData = [0, 0, 0, 0, 0, 0, 0, 0]\<rparr>"
    by (simp add: processChartData_returns groupedDataOf_feb seededOf_feb sortedKeysOf_def
        dayCount_days aggregationTypeOf_def plainLocale_def numeral_eq_Suc)
  moreover have "processChartData plainLocale midFebData 19753 19950 =
       Inr \<lparr>labels = replicate 7 (StrLabel []),
            tooltipTitles = replicate 7 [],
            incomeData = [0, 0, 0, 0, 0, 0, 0],
            expenseData = [0, 0, 0, 0, 0, 0, 0]\<rparr>"
    by (simp add: processChartData_returns groupedDataOf_midFeb seededOf_monthly sortedKeysOf_def
        dayCount_days aggregationTypeOf_def plainLocale_def numeral_eq_Suc)
  moreover have "totalOfType ''income'' febData = 100" "totalOfType ''income'' midFebData = 100"
    by (simp_all add: febData_def midFebData_def totalOfType_def)
  moreover have "map date febData = [createTimezoneSafeDate 19778]"
    "map date midFebData = [createTimezoneSafeDate 19763]"
    by (simp_all add: febData_def midFebData_def)
  ultimately show ?thesis
    by (simp add: dayCount_days aggregationTypeOf_def)
qed

end
